theory Spec2Isabelle
  imports Complex_Main "HOL-Library.Word" "HOL-Library.Sublist"
begin

unbundle bit_operations_syntax

section \<open>Playback scheduler\<close>

text \<open>
  \<^verbatim>\<open>playAudioChunk\<close> (src/index.tsx, lines 900-931) owns the playback cursor
  \<^verbatim>\<open>nextStartTime\<close>. Of the object state it reads the two output handles, which are
  either null or set, and the cursor. The clock \<^verbatim>\<open>outputAudioContext.currentTime\<close> is an
  input of each call. Everything inside the \<^verbatim>\<open>try\<close> block before the scheduling lines
  (base64 decoding, \<^verbatim>\<open>decodeAudioData\<close>, building the buffer source) either throws, in
  which case the \<^verbatim>\<open>catch\<close> logs and the chunk is dropped with the cursor untouched, or
  yields a buffer of some duration.

  Times are values of an arbitrary linearly ordered type with an addition: no law of
  addition is assumed, so the results hold for the additions of IEEE doubles just as
  for exact arithmetic.
\<close>

record 'a playback =
  outputAudioContext :: bool
  outputGainNode :: bool
  nextStartTime :: 'a

datatype 'a decoded = DecodeError | AudioBuffer (duration: 'a)

text \<open>The result is the time handed to \<^verbatim>\<open>source.start\<close>, if any, and the new state.\<close>

definition playAudioChunk ::
  "('a::{linorder,plus}, 'b) playback_scheme \<Rightarrow> 'a \<Rightarrow> 'a decoded \<Rightarrow>
   'a option \<times> ('a, 'b) playback_scheme" where
  "playAudioChunk st currentTime chunk =
     (if \<not> outputAudioContext st \<or> \<not> outputGainNode st then (None, st)
      else case chunk of
        DecodeError \<Rightarrow> (None, st)
      | AudioBuffer d \<Rightarrow>
          (let st1 = (if nextStartTime st < currentTime
                      then st\<lparr>nextStartTime := currentTime\<rparr> else st)
           in (Some (nextStartTime st1),
               st1\<lparr>nextStartTime := nextStartTime st1 + d\<rparr>)))"

text \<open>
  A session's inbound audio: each chunk arrives with the clock value read when it is
  scheduled. \<open>playAll\<close> runs \<^verbatim>\<open>playAudioChunk\<close> over them in arrival order and collects
  the start times of the chunks that were scheduled.
\<close>

fun playAll ::
  "('a::{linorder,plus}, 'b) playback_scheme \<Rightarrow> ('a \<times> 'a decoded) list \<Rightarrow> 'a list" where
  "playAll st [] = []"
| "playAll st ((now, chunk) # rest) =
     (case playAudioChunk st now chunk of
        (None, st') \<Rightarrow> playAll st' rest
      | (Some t, st') \<Rightarrow> t # playAll st' rest)"

text \<open>
  No chunk of the list is delayed past the cursor: when it is scheduled the clock has
  not overtaken \<^verbatim>\<open>nextStartTime\<close>.
\<close>

fun onTime ::
  "('a::{linorder,plus}, 'b) playback_scheme \<Rightarrow> ('a \<times> 'a decoded) list \<Rightarrow> bool" where
  "onTime st [] = True"
| "onTime st ((now, chunk) # rest) =
     ((case chunk of DecodeError \<Rightarrow> True | AudioBuffer d \<Rightarrow> now \<le> nextStartTime st) \<and>
      onTime (snd (playAudioChunk st now chunk)) rest)"

definition ready :: "('a, 'b) playback_scheme \<Rightarrow> bool" where
  "ready st = (outputAudioContext st \<and> outputGainNode st)"

text \<open>The durations of the chunks of a list that decode, in order.\<close>

fun durations :: "('a \<times> 'a decoded) list \<Rightarrow> 'a list" where
  "durations [] = []"
| "durations ((now, DecodeError) # rest) = durations rest"
| "durations ((now, AudioBuffer d) # rest) = d # durations rest"

section \<open>PCM conversion\<close>

text \<open>
  The sample values met here are finite and every operation on them is exact: a decoded
  sample is a 16-bit integer divided by a power of two, and a captured 32-bit float
  (24 significant bits) times \<^verbatim>\<open>0x7FFF\<close> (15 bits) fits the 53 significant bits of a
  double. So samples are modelled as real numbers. NaN and the infinities are outside
  the model.
\<close>

type_synonym int16 = "16 word"
type_synonym uint8 = "8 word"

text \<open>
  Storing a number into an \<^verbatim>\<open>Int16Array\<close> element converts it as ECMAScript's ToInt16
  does: the fraction is dropped (towards zero) and the integer is taken modulo \<open>2^16\<close>.
\<close>

definition trunc :: "real \<Rightarrow> int" where
  "trunc y = (if 0 \<le> y then \<lfloor>y\<rfloor> else \<lceil>y\<rceil>)"

definition toInt16 :: "real \<Rightarrow> int16" where
  "toInt16 y = word_of_int (trunc y)"

text \<open>
  The loop body of \<^verbatim>\<open>processor.onaudioprocess\<close> (lines 817-823 and 1330-1336):
  \<^verbatim>\<open>pcmData[i] = Math.max(-1, Math.min(1, inputData[i])) * 0x7FFF\<close>.
\<close>

definition pcmSample :: "real \<Rightarrow> int16" where
  "pcmSample x = toInt16 (max (- 1) (min 1 x) * 32767)"

definition pcmData :: "real list \<Rightarrow> int16 list" where
  "pcmData inputData = map pcmSample inputData"

text \<open>
  \<^verbatim>\<open>new Uint8Array(pcmData.buffer)\<close>: the bytes of the samples, low byte first on the
  little-endian platforms browsers run on. The base64 text that \<^verbatim>\<open>btoa\<close> makes of these
  bytes is the platform's and is not modelled.
\<close>

definition uint8View :: "int16 list \<Rightarrow> uint8 list" where
  "uint8View ws = concat (map (\<lambda>w. [ucast w, ucast (drop_bit 8 w)]) ws)"

text \<open>
  \<^verbatim>\<open>decodeAudioData\<close> (lines 933-945), per sample:
  \<^verbatim>\<open>float32Data[i] = dataInt16[i] / 32768.0\<close>.
\<close>

definition decodeSample :: "int16 \<Rightarrow> real" where
  "decodeSample w = real_of_int (sint w) / 32768"

definition decodeAudioData :: "int16 list \<Rightarrow> real list" where
  "decodeAudioData dataInt16 = map decodeSample dataInt16"

section \<open>Application state\<close>

text \<open>
  The fields of \<^verbatim>\<open>VoiceNotesApp\<close> that the session logic reads and writes. Object
  references that are only tested for null are booleans. The display side (CSS classes
  of the recording interface, scroll positions, waveform, timer) is left out.
\<close>

datatype sourceType = Mic | System

datatype trackKind = Audio | Video

record track =
  kind :: trackKind
  stopped :: bool

text \<open>
  A child element of the raw transcription container. \<open>ident\<close> is the identity of the
  DOM node: \<^verbatim>\<open>document.createElement\<close> returns a node distinct from all earlier ones.
\<close>

record span =
  ident :: nat
  className :: string
  textContent :: string
  activeTranslation :: bool

text \<open>What has been handed to the live session through \<^verbatim>\<open>sessionPromise.then\<close>.\<close>

datatype outbound = Turn string | RealtimeInput "uint8 list"

text \<open>The audio frames among what has been handed to the session, in order.\<close>

fun realtimeInputs :: "outbound list \<Rightarrow> uint8 list list" where
  "realtimeInputs [] = []"
| "realtimeInputs (Turn t # rest) = realtimeInputs rest"
| "realtimeInputs (RealtimeInput bytes # rest) = bytes # realtimeInputs rest"

text \<open>The two callbacks the code hands to \<^verbatim>\<open>setTimeout\<close>.\<close>

datatype callback = RestartRecognition | ResetStatus

record 'a app = "'a playback" +
  isRecording :: bool
  isWebSpeechActive :: bool
  selectedSourceType :: sourceType
  recordingStatus :: string
  stream :: bool
  tracks :: "track list"
  audioContext :: bool
  sourceNode :: bool
  processor :: "bool option"
  sessionPromise :: "string option"
  sent :: "outbound list"
  recognition :: bool
  recognitionStarts :: nat
  timers :: "(nat \<times> callback) list"
  rawTranscription :: "span list"
  rawInterimSpan :: "nat option"
  nextIdent :: nat
  translatedContent :: "string list"
  translationRequests :: "(string \<times> string) list"

text \<open>
  \<open>tracks\<close> are the tracks of the stream granted last, as the platform sees them, and
  \<open>stream\<close> says whether the object still holds that stream;
  \<open>sessionPromise\<close> holds the system instruction the connection was asked for;
  \<open>processor\<close> is the script processor node, if there is one, with whether its
  \<^verbatim>\<open>onaudioprocess\<close> handler is set;
  \<open>recognitionStarts\<close> counts the calls of \<^verbatim>\<open>recognition.start()\<close> that returned;
  \<open>timers\<close> are the pending \<^verbatim>\<open>setTimeout\<close> callbacks with their delays in milliseconds;
  \<open>translationRequests\<close> are the (text, target language) pairs sent to the
  translation endpoint.
\<close>

section \<open>Transcript state\<close>

text \<open>
  JavaScript's \<^verbatim>\<open>String.prototype.trim\<close> removes white space and line terminators from
  both ends. A \<open>char\<close> stands for a code unit below 256; among those the white space is
  tab, line feed, vertical tab, form feed, carriage return, space and no-break space.
\<close>

definition isWhiteSpace :: "char \<Rightarrow> bool" where
  "isWhiteSpace c = (of_char c \<in> {9, 10, 11, 12, 13, 32, 160 :: nat})"

definition trim :: "string \<Rightarrow> string" where
  "trim s = rev (dropWhile isWhiteSpace (rev (dropWhile isWhiteSpace s)))"

text \<open>
  \<^verbatim>\<open>this.rawInterimSpan && this.rawInterimSpan.parentNode === this.rawTranscription\<close>:
  the interim span exists and is a child of the container.
\<close>

definition interimAttached :: "('a, 'b) app_scheme \<Rightarrow> bool" where
  "interimAttached st =
     (case rawInterimSpan st of
        None \<Rightarrow> False
      | Some r \<Rightarrow> r \<in> set (map ident (rawTranscription st)))"

text \<open>\<^verbatim>\<open>ensureInterimSpan\<close> (lines 520-527).\<close>

definition ensureInterimSpan :: "('a, 'b) app_scheme \<Rightarrow> ('a, 'b) app_scheme" where
  "ensureInterimSpan st =
     (if \<not> interimAttached st then
        st\<lparr>rawInterimSpan := Some (nextIdent st),
           rawTranscription := rawTranscription st @
             [\<lparr>ident = nextIdent st, className = ''interim'', textContent = [],
               activeTranslation = False\<rparr>],
           nextIdent := Suc (nextIdent st)\<rparr>
      else st)"

text \<open>
  \<^verbatim>\<open>parent.insertBefore(node, ref)\<close> on the list of children. The DOM throws when \<open>ref\<close>
  is not a child; the caller below has checked that it is.
\<close>

fun insertBefore :: "span \<Rightarrow> nat \<Rightarrow> span list \<Rightarrow> span list" where
  "insertBefore new r [] = [new]"
| "insertBefore new r (c # cs) =
     (if ident c = r then new # c # cs else c # insertBefore new r cs)"

text \<open>\<^verbatim>\<open>appendRawSegment\<close> (lines 484-504).\<close>

definition appendRawSegment :: "string \<Rightarrow> ('a, 'b) app_scheme \<Rightarrow> ('a, 'b) app_scheme" where
  "appendRawSegment text st =
     (if text = [] \<or> trim text = [] then st
      else
        let new = \<lparr>ident = nextIdent st, className = ''transcript-segment'',
                   textContent = text @ '' '', activeTranslation = False\<rparr>;
            st1 = st\<lparr>nextIdent := Suc (nextIdent st)\<rparr>
        in case rawInterimSpan st of
             Some r \<Rightarrow>
               if interimAttached st
               then st1\<lparr>rawTranscription := insertBefore new r (rawTranscription st)\<rparr>
               else ensureInterimSpan (st1\<lparr>rawTranscription := rawTranscription st @ [new]\<rparr>)
           | None \<Rightarrow>
               ensureInterimSpan (st1\<lparr>rawTranscription := rawTranscription st @ [new]\<rparr>))"

text \<open>\<^verbatim>\<open>updateInterimText\<close> (lines 509-518).\<close>

definition updateInterimText :: "string \<Rightarrow> ('a, 'b) app_scheme \<Rightarrow> ('a, 'b) app_scheme" where
  "updateInterimText text st =
     (let st1 = ensureInterimSpan st
      in case rawInterimSpan st1 of
           None \<Rightarrow> st1
         | Some r \<Rightarrow>
             st1\<lparr>rawTranscription :=
                   map (\<lambda>c. if ident c = r then c\<lparr>textContent := text\<rparr> else c)
                     (rawTranscription st1)\<rparr>)"

text \<open>
  What the raw view shows: the texts of the finalized segments in document order
  (\<^verbatim>\<open>querySelectorAll('.transcript-segment')\<close>), the text of the interim span, and the
  positions of the children that are not finalized segments.
\<close>

definition segments :: "('a, 'b) app_scheme \<Rightarrow> span list" where
  "segments st = filter (\<lambda>c. className c = ''transcript-segment'') (rawTranscription st)"

definition finalized :: "('a, 'b) app_scheme \<Rightarrow> string list" where
  "finalized st = map textContent (segments st)"

definition interimText :: "('a, 'b) app_scheme \<Rightarrow> string option" where
  "interimText st =
     (case rawInterimSpan st of
        None \<Rightarrow> None
      | Some r \<Rightarrow> map_option textContent (find (\<lambda>c. ident c = r) (rawTranscription st)))"

text \<open>\<^verbatim>\<open>highlightActiveSegment\<close> (lines 533-548).\<close>

definition highlightActiveSegment :: "('a, 'b) app_scheme \<Rightarrow> ('a, 'b) app_scheme" where
  "highlightActiveSegment st =
     (case rev (segments st) of
        [] \<Rightarrow> st
      | lastSegment # others \<Rightarrow>
          st\<lparr>rawTranscription :=
                map (\<lambda>c. if className c = ''transcript-segment''
                          then c\<lparr>activeTranslation := (ident c = ident lastSegment)\<rparr>
                          else c)
                  (rawTranscription st)\<rparr>)"

text \<open>
  \<^verbatim>\<open>appendTranslatedText\<close> (lines 553-566). The translated view is the list of the texts
  appended; their rendering as inline markdown is the display's.
\<close>

definition appendTranslatedText :: "string \<Rightarrow> ('a, 'b) app_scheme \<Rightarrow> ('a, 'b) app_scheme" where
  "appendTranslatedText text st =
     (if text = [] then st else st\<lparr>translatedContent := translatedContent st @ [text]\<rparr>)"

text \<open>
  The interim slot renders after all finalized segments: the container's last child is
  the interim span the object refers to, and every child before it is a finalized
  segment, a node of its own.
\<close>

definition interimLast :: "('a, 'b) app_scheme \<Rightarrow> bool" where
  "interimLast st =
     (case rawInterimSpan st of
        None \<Rightarrow> False
      | Some r \<Rightarrow>
          (case rev (rawTranscription st) of
             [] \<Rightarrow> False
           | i # before \<Rightarrow>
               ident i = r \<and> className i = ''interim'' \<and> r < nextIdent st \<and>
               list_all (\<lambda>c. className c = ''transcript-segment'' \<and> ident c \<noteq> r) before))"

section \<open>Translation client\<close>

text \<open>
  What the request \<^verbatim>\<open>genAI.models.generateContent\<close> comes to: it is rejected, or it
  resolves to a response whose \<^verbatim>\<open>text\<close> is a string or undefined.
\<close>

datatype generated = RequestFails | Response "string option"

text \<open>
  \<^verbatim>\<open>translateTextWithFlash\<close> (lines 580-591). \<^verbatim>\<open>response.text.trim()\<close> on an undefined
  text throws a TypeError inside the \<^verbatim>\<open>try\<close>, which the \<^verbatim>\<open>catch\<close> turns into the empty
  string like any other failure.
\<close>

definition translateTextWithFlash :: "generated \<Rightarrow> string" where
  "translateTextWithFlash response =
     (case response of
        RequestFails \<Rightarrow> []
      | Response None \<Rightarrow> []
      | Response (Some t) \<Rightarrow> trim t)"

text \<open>
  The request failed or its result is empty: it was rejected, the response has no text,
  or the text is empty or all white space.
\<close>

definition failedOrEmpty :: "generated \<Rightarrow> bool" where
  "failedOrEmpty response =
     (case response of
        RequestFails \<Rightarrow> True
      | Response None \<Rightarrow> True
      | Response (Some t) \<Rightarrow> list_all isWhiteSpace t)"

text \<open>
  \<^verbatim>\<open>handleTranslationAndTTS\<close> (lines 596-613), from the moment the awaited translation
  is back: \<open>st\<close> is the state at that moment.
\<close>

definition handleTranslationAndTTS :: "generated \<Rightarrow> ('a, 'b) app_scheme \<Rightarrow> ('a, 'b) app_scheme" where
  "handleTranslationAndTTS response st =
     (let translatedText = translateTextWithFlash response
      in if translatedText = [] then st
         else
           let st1 = highlightActiveSegment (appendTranslatedText translatedText st)
           in if sessionPromise st1 \<noteq> None
              then st1\<lparr>sent := sent st1 @ [Turn translatedText]\<rparr>
              else st1)"

section \<open>Mode resolution\<close>

text \<open>\<^verbatim>\<open>isTranslationMode\<close> (line 640).\<close>

definition isTranslationMode :: "string \<Rightarrow> string \<Rightarrow> bool" where
  "isTranslationMode selectedInputLanguage selectedOutputLanguage =
     (selectedOutputLanguage \<noteq> ''none'' \<and> selectedOutputLanguage \<noteq> selectedInputLanguage)"

text \<open>A line break of a template literal followed by the indentation of the next line.\<close>

definition lineBreak :: "nat \<Rightarrow> string" where
  "lineBreak n = CHR 0x0A # replicate n (CHR '' '')"

text \<open>The three prompts of lines 641-668, the same in both classes.\<close>

definition systemInstruction :: "sourceType \<Rightarrow> bool \<Rightarrow> string \<Rightarrow> string" where
  "systemInstruction source translating selectedOutputLanguageText =
     (if source = Mic \<and> translating then
        ''You are a text-to-speech engine. '' @ lineBreak 10 @
        ''You will receive text in ['' @ selectedOutputLanguageText @ '']. '' @ lineBreak 10 @
        ''Your ONLY task is to read it aloud instantly with a warm, highly motivated, faithfully convicted tone in [''
          @ selectedOutputLanguageText @ ''].'' @ lineBreak 10 @
        ''Do not translate (it is already translated). '' @ lineBreak 10 @
        ''Do not comment. '' @ lineBreak 10 @
        ''Just read the text provided.''
      else if source = System \<and> translating then
        ''Your job is to translate the input audio into ['' @ selectedOutputLanguageText @
        ''] and natively read aloud in a warm highly motivated, faithfully convicted style of voice and tone. ''
          @ lineBreak 11 @
        ''You are not allowed to interact or comment.'' @ lineBreak 11 @
        ''Your only task is to listen, translate, and read aloud the translation.'' @ lineBreak 11 @
        ''Start continuously.''
      else
        ''You are a professional transcription assistant. '' @ lineBreak 10 @
        ''Your task is to listen to the user audio and generate accurate transcriptions.'' @ lineBreak 10 @
        ''Do not hallucinate. If the audio is silent, do not output text.'' @ lineBreak 10 @
        ''IMPORTANT: You must not speak. Output only silence in the audio channel unless you need to clarify something briefly.'')"

text \<open>
  The routing decision taken in \<^verbatim>\<open>onopen\<close>. \<^verbatim>\<open>VoiceNotesApp\<close> (line 811):
  \<^verbatim>\<open>(this.selectedSourceType === 'system') || (!isTranslationMode)\<close>.
\<close>

definition shouldStreamAudioToGemini :: "sourceType \<Rightarrow> bool \<Rightarrow> bool" where
  "shouldStreamAudioToGemini source translating = (source = System \<or> \<not> translating)"

text \<open>
  \<^verbatim>\<open>GeminiLiveApp\<close> (lines 1322-1323) adds \<^verbatim>\<open>isMicFallback\<close>, read from the recognizer's
  flag when the connection opens.
\<close>

definition isMicFallback :: "sourceType \<Rightarrow> bool \<Rightarrow> bool" where
  "isMicFallback source webSpeechActive = (source = Mic \<and> \<not> webSpeechActive)"

definition GeminiLiveApp_shouldStreamAudioToGemini :: "sourceType \<Rightarrow> bool \<Rightarrow> bool \<Rightarrow> bool" where
  "GeminiLiveApp_shouldStreamAudioToGemini source translating webSpeechActive =
     (source = System \<or> \<not> translating \<or> isMicFallback source webSpeechActive)"

section \<open>Live session callbacks\<close>

text \<open>
  The handler installed on the processor (lines 817-837): the frame is converted and, if
  there is a session promise, queued on it.
\<close>

definition audioprocess :: "real list \<Rightarrow> ('a, 'b) app_scheme \<Rightarrow> ('a, 'b) app_scheme" where
  "audioprocess inputData st =
     (let bytes = uint8View (pcmData inputData)
      in if sessionPromise st \<noteq> None
         then st\<lparr>sent := sent st @ [RealtimeInput bytes]\<rparr>
         else st)"

text \<open>\<^verbatim>\<open>onopen\<close> of \<^verbatim>\<open>VoiceNotesApp\<close> (lines 799-839); \<open>translating\<close> is the closure's
  \<^verbatim>\<open>isTranslationMode\<close>.\<close>

definition onopen :: "bool \<Rightarrow> ('a, 'b) app_scheme \<Rightarrow> ('a, 'b) app_scheme" where
  "onopen translating st0 =
     (let st = st0\<lparr>recordingStatus := ''Live Session Active''\<rparr>
      in if shouldStreamAudioToGemini (selectedSourceType st) translating
            \<and> sourceNode st \<and> processor st \<noteq> None \<and> audioContext st
         then st\<lparr>processor := Some True\<rparr>
         else st)"

text \<open>\<^verbatim>\<open>onopen\<close> of \<^verbatim>\<open>GeminiLiveApp\<close> (lines 1310-1354).\<close>

definition GeminiLiveApp_onopen :: "bool \<Rightarrow> ('a, 'b) app_scheme \<Rightarrow> ('a, 'b) app_scheme" where
  "GeminiLiveApp_onopen translating st0 =
     (let st = st0\<lparr>recordingStatus := ''Live Session Active''\<rparr>
      in if GeminiLiveApp_shouldStreamAudioToGemini (selectedSourceType st) translating
              (isWebSpeechActive st)
            \<and> sourceNode st \<and> processor st \<noteq> None \<and> audioContext st
         then st\<lparr>processor := Some True\<rparr>
         else st)"

text \<open>
  An inbound message as \<^verbatim>\<open>handleLiveMessage\<close> reads it: the inline audio of the first
  part of the model turn, here with the clock at the time it is scheduled and with what
  decoding it gives; the input and output transcription texts; and the text of the
  first part that has one. An absent text and an empty one are both falsy and both \<open>[]\<close>.
\<close>

record 'a liveMessage =
  audioData :: "('a \<times> 'a decoded) option"
  inputTranscription :: string
  outputTranscription :: string
  textPart :: string

text \<open>\<^verbatim>\<open>handleLiveMessage\<close> (lines 862-898).\<close>

definition handleLiveMessage ::
  "('a::{linorder,plus}) liveMessage \<Rightarrow> bool \<Rightarrow> ('a, 'b) app_scheme \<Rightarrow> ('a, 'b) app_scheme" where
  "handleLiveMessage message translating st =
     (let st1 = (case audioData message of
                   None \<Rightarrow> st
                 | Some (now, chunk) \<Rightarrow>
                     snd (playAudioChunk
                            (if translating \<and> selectedSourceType st = System
                             then highlightActiveSegment st else st)
                            now chunk))
      in if selectedSourceType st1 = System then
           let st2 = (if inputTranscription message \<noteq> []
                      then appendRawSegment (inputTranscription message) st1 else st1);
               st3 = (if outputTranscription message \<noteq> []
                      then appendTranslatedText (outputTranscription message) st2 else st2)
           in if outputTranscription message = [] \<and> textPart message \<noteq> []
              then appendTranslatedText (textPart message) st3
              else st3
         else st1)"

section \<open>Local recognition callbacks\<close>

text \<open>
  A result event: \<^verbatim>\<open>event.resultIndex\<close> and, for each entry of \<^verbatim>\<open>event.results\<close>, its
  \<^verbatim>\<open>isFinal\<close> flag and the transcript of its first alternative.
\<close>

record speechEvent =
  resultIndex :: nat
  results :: "(bool \<times> string) list"

text \<open>The loop of lines 713-719 over the results still to visit; the pair is
  (\<^verbatim>\<open>interim\<close>, \<^verbatim>\<open>final\<close>).\<close>

fun collect :: "(bool \<times> string) list \<Rightarrow> string \<times> string \<Rightarrow> string \<times> string" where
  "collect [] acc = acc"
| "collect ((isFinal, transcript) # rest) (interim, final) =
     (if isFinal then collect rest (interim, final @ transcript)
      else collect rest (interim @ transcript, final))"

text \<open>
  \<^verbatim>\<open>recognition.onresult\<close> (lines 710-730). \<open>translating\<close> and \<open>languageText\<close> are the
  closure's \<^verbatim>\<open>isTranslationMode\<close> and \<^verbatim>\<open>selectedOutputLanguageText\<close>. The call of
  \<^verbatim>\<open>handleTranslationAndTTS\<close> is not awaited: here it issues the request, and
  \<open>handleTranslationAndTTS\<close> above runs when the answer arrives.
\<close>

definition onresult ::
  "bool \<Rightarrow> string \<Rightarrow> speechEvent \<Rightarrow> ('a, 'b) app_scheme \<Rightarrow> ('a, 'b) app_scheme" where
  "onresult translating languageText event st =
     (let (interim, final) = collect (drop (resultIndex event) (results event)) ([], []);
          st1 = (if final \<noteq> [] then
                   let st' = appendRawSegment final st
                   in if selectedSourceType st' = Mic \<and> translating
                      then st'\<lparr>translationRequests :=
                                 translationRequests st' @ [(final, languageText)]\<rparr>
                      else st'
                 else st)
      in updateInterimText interim st1)"

text \<open>\<^verbatim>\<open>recognition.onerror\<close> (lines 732-737).\<close>

definition onerror :: "string \<Rightarrow> ('a, 'b) app_scheme \<Rightarrow> ('a, 'b) app_scheme" where
  "onerror code st =
     (if code = ''aborted'' \<or> code = ''not-allowed''
      then st\<lparr>isWebSpeechActive := False\<rparr> else st)"

text \<open>\<^verbatim>\<open>recognition.onend\<close> (lines 739-750) up to the call of \<^verbatim>\<open>setTimeout\<close>.\<close>

definition onend :: "('a, 'b) app_scheme \<Rightarrow> ('a, 'b) app_scheme" where
  "onend st =
     (if isRecording st \<and> isWebSpeechActive st
      then st\<lparr>timers := timers st @ [(100, RestartRecognition)]\<rparr> else st)"

text \<open>The callback of that timer (lines 742-747); \<open>startThrows\<close> says whether
  \<^verbatim>\<open>recognition.start()\<close> throws this time.\<close>

definition restartRecognition :: "bool \<Rightarrow> ('a, 'b) app_scheme \<Rightarrow> ('a, 'b) app_scheme" where
  "restartRecognition startThrows st =
     (if isRecording st \<and> isWebSpeechActive st then
        if startThrows then st\<lparr>isWebSpeechActive := False\<rparr>
        else st\<lparr>recognitionStarts := Suc (recognitionStarts st)\<rparr>
      else st)"

section \<open>Starting and stopping a session\<close>

text \<open>
  What \<^verbatim>\<open>startLiveSession\<close> meets outside the object: the selections of the page, what
  the capture requests settle to, whether the window offers a recognizer, and which of
  the platform calls throw.
\<close>

datatype jsError = JsError (name: string) (message: string)

datatype 'x settled = Rejected jsError | Fulfilled 'x

record env =
  apiKey :: bool
  unifiedSourceSelect :: string
  selectedInputLanguage :: string
  selectedOutputLanguage :: string
  selectedOutputOption :: "string option"
  getDisplayMedia :: "track list settled"
  getUserMedia :: "track list settled"
  speechRecognitionInWindow :: bool
  recognitionStartThrows :: bool
  createMediaStreamSourceThrows :: bool

definition selectedOutputLanguageText :: "env \<Rightarrow> string" where
  "selectedOutputLanguageText e =
     (case selectedOutputOption e of
        Some text \<Rightarrow> text
      | None \<Rightarrow> selectedOutputLanguage e)"

text \<open>Lines 617-627: the fields and the two views are reset.\<close>

definition resetSession :: "('a::zero, 'b) app_scheme \<Rightarrow> ('a, 'b) app_scheme" where
  "resetSession st =
     (ensureInterimSpan
        (st\<lparr>isRecording := True,
            recordingStatus := ''Initializing Live Session...'',
            isWebSpeechActive := False,
            nextStartTime := 0,
            rawTranscription := [],
            rawInterimSpan := None\<rparr>))
     \<lparr>translatedContent := []\<rparr>"

text \<open>The outer \<^verbatim>\<open>catch\<close> (lines 855-859).\<close>

definition startFailed :: "('a, 'b) app_scheme \<Rightarrow> ('a, 'b) app_scheme" where
  "startFailed st = st\<lparr>isRecording := False, recordingStatus := ''Error starting session''\<rparr>"

text \<open>
  Lines 761-853: the two audio contexts, the gain node, the source node made from the
  stream, the processor, and the connection with its system instruction. A throw of
  \<^verbatim>\<open>createMediaStreamSource\<close> lands in the outer \<^verbatim>\<open>catch\<close>; the other platform calls
  here are taken not to throw.
\<close>

definition connectLive :: "string \<Rightarrow> env \<Rightarrow> ('a, 'b) app_scheme \<Rightarrow> ('a, 'b) app_scheme" where
  "connectLive instruction e st =
     (let st1 = st\<lparr>audioContext := True, outputAudioContext := True, outputGainNode := True\<rparr>
      in if createMediaStreamSourceThrows e then startFailed st1
         else st1\<lparr>sourceNode := True, processor := Some False,
                  sessionPromise := Some instruction\<rparr>)"

text \<open>
  Lines 702-758: the recognizer is created when the window offers one, its handlers
  (above) are installed and it is started.
\<close>

definition setupRecognition :: "env \<Rightarrow> ('a, 'b) app_scheme \<Rightarrow> ('a, 'b) app_scheme" where
  "setupRecognition e st =
     (if speechRecognitionInWindow e then
        let st1 = st\<lparr>isWebSpeechActive := True, recognition := True\<rparr>
        in if recognitionStartThrows e then st1\<lparr>isWebSpeechActive := False\<rparr>
           else st1\<lparr>recognitionStarts := Suc (recognitionStarts st1)\<rparr>
      else st)"

text \<open>\<^verbatim>\<open>VoiceNotesApp.startLiveSession\<close> (lines 615-860).\<close>

definition startLiveSession :: "env \<Rightarrow> ('a::zero, 'b) app_scheme \<Rightarrow> ('a, 'b) app_scheme" where
  "startLiveSession e st0 =
     (let st = resetSession st0;
          translating = isTranslationMode (selectedInputLanguage e) (selectedOutputLanguage e);
          instruction =
            systemInstruction (selectedSourceType st) translating (selectedOutputLanguageText e)
      in if selectedSourceType st = System then
           (case getDisplayMedia e of
              Rejected err \<Rightarrow>
                st\<lparr>isRecording := False,
                   recordingStatus := ''System audio permission denied.''\<rparr>
            | Fulfilled granted \<Rightarrow>
                connectLive instruction e (st\<lparr>stream := True, tracks := granted\<rparr>))
         else
           (case getUserMedia e of
              Rejected err \<Rightarrow> startFailed st
            | Fulfilled granted \<Rightarrow>
                connectLive instruction e
                  (setupRecognition e (st\<lparr>stream := True, tracks := granted\<rparr>))))"

text \<open>
  \<^verbatim>\<open>startLiveSession\<close> is suspended while it awaits the capture request (line 675 or
  699), and other handlers, \<^verbatim>\<open>stopLiveSession\<close> among them, can run before it goes on.
  \<open>resumeLiveSession\<close> is the function from the moment the request settles (lines
  683-860), in the state it then finds; what came before is \<open>resetSession\<close>. The source
  type is read before the suspension, and nothing modelled here changes it in between.
\<close>

definition resumeLiveSession :: "env \<Rightarrow> ('a, 'b) app_scheme \<Rightarrow> ('a, 'b) app_scheme" where
  "resumeLiveSession e st =
     (let translating = isTranslationMode (selectedInputLanguage e) (selectedOutputLanguage e);
          instruction =
            systemInstruction (selectedSourceType st) translating (selectedOutputLanguageText e)
      in if selectedSourceType st = System then
           (case getDisplayMedia e of
              Rejected err \<Rightarrow>
                st\<lparr>isRecording := False,
                   recordingStatus := ''System audio permission denied.''\<rparr>
            | Fulfilled granted \<Rightarrow>
                connectLive instruction e (st\<lparr>stream := True, tracks := granted\<rparr>))
         else
           (case getUserMedia e of
              Rejected err \<Rightarrow> startFailed st
            | Fulfilled granted \<Rightarrow>
                connectLive instruction e
                  (setupRecognition e (st\<lparr>stream := True, tracks := granted\<rparr>))))"

text \<open>
  \<^verbatim>\<open>GeminiLiveApp\<close> has the same fields, but for its interim container: the field
  \<^verbatim>\<open>rawInterimDiv\<close>, held here in \<open>rawInterimSpan\<close>, refers to a \<^verbatim>\<open>div\<close> that is given no
  class. \<^verbatim>\<open>ensureInterimContainer\<close> (lines 1055-1060) makes it when the field is null,
  and does not look at its parent.
\<close>

definition GeminiLiveApp_ensureInterimContainer ::
  "('a, 'b) app_scheme \<Rightarrow> ('a, 'b) app_scheme" where
  "GeminiLiveApp_ensureInterimContainer st =
     (if rawInterimSpan st = None then
        st\<lparr>rawInterimSpan := Some (nextIdent st),
           rawTranscription := rawTranscription st @
             [\<lparr>ident = nextIdent st, className = [], textContent = [],
               activeTranslation = False\<rparr>],
           nextIdent := Suc (nextIdent st)\<rparr>
      else st)"

text \<open>
  Lines 1092-1113 of \<^verbatim>\<open>GeminiLiveApp.startLiveSession\<close>: the fields are reset, the source
  type is read from the unified dropdown, and the two views are emptied.
\<close>

definition GeminiLiveApp_resetSession ::
  "env \<Rightarrow> ('a::zero, 'b) app_scheme \<Rightarrow> ('a, 'b) app_scheme" where
  "GeminiLiveApp_resetSession e st =
     (GeminiLiveApp_ensureInterimContainer
        (st\<lparr>isRecording := True,
            recordingStatus := ''Initializing Live Session...'',
            isWebSpeechActive := False,
            nextStartTime := 0,
            selectedSourceType := (if unifiedSourceSelect e = ''system'' then System else Mic),
            rawTranscription := [],
            rawInterimSpan := None\<rparr>))
     \<lparr>translatedContent := []\<rparr>"

text \<open>\<^verbatim>\<open>GeminiLiveApp.startLiveSession\<close> (lines 1089-1375).\<close>

definition GeminiLiveApp_setupRecognition ::
  "env \<Rightarrow> ('a, 'b) app_scheme \<Rightarrow> ('a, 'b) app_scheme" where
  "GeminiLiveApp_setupRecognition e st =
     (if speechRecognitionInWindow e then
        let st1 = st\<lparr>recognition := True\<rparr>
        in if recognitionStartThrows e then st1\<lparr>isWebSpeechActive := False\<rparr>
           else st1\<lparr>recognitionStarts := Suc (recognitionStarts st1),
                    isWebSpeechActive := True\<rparr>
      else st)"

text \<open>The inner \<^verbatim>\<open>catch\<close> of the system branch (lines 1176-1190).\<close>

definition systemAudioFailed :: "jsError \<Rightarrow> ('a, 'b) app_scheme \<Rightarrow> ('a, 'b) app_scheme" where
  "systemAudioFailed err st =
     st\<lparr>isRecording := False,
        recordingStatus :=
          (if name err = ''NotAllowedError'' \<or> name err = ''PermissionDeniedError''
           then ''Selection cancelled.''
           else if message err \<noteq> [] then message err else ''System audio error.''),
        timers := timers st @ [(3000, ResetStatus)]\<rparr>"

definition noAudioTrack :: jsError where
  "noAudioTrack =
     JsError ''Error''
       (''No audio track selected. Did you forget to check '' @ [CHR 0x27] @
        ''Share Audio'' @ [CHR 0x27] @ ''?'')"

definition GeminiLiveApp_startLiveSession ::
  "env \<Rightarrow> ('a::zero, 'b) app_scheme \<Rightarrow> ('a, 'b) app_scheme" where
  "GeminiLiveApp_startLiveSession e st0 =
     (if \<not> apiKey e then startFailed st0
      else
        let st = GeminiLiveApp_resetSession e st0;
            translating = isTranslationMode (selectedInputLanguage e) (selectedOutputLanguage e);
            instruction =
              systemInstruction (selectedSourceType st) translating (selectedOutputLanguageText e)
        in if selectedSourceType st = System then
             (case getDisplayMedia e of
                Rejected err \<Rightarrow> systemAudioFailed err st
              | Fulfilled granted \<Rightarrow>
                  if filter (\<lambda>t. kind t = Audio) granted = [] then
                    systemAudioFailed noAudioTrack
                      (st\<lparr>tracks := map (\<lambda>t. t\<lparr>stopped := True\<rparr>) granted,
                         stream := False\<rparr>)
                  else connectLive instruction e (st\<lparr>stream := True, tracks := granted\<rparr>))
           else
             (case getUserMedia e of
                Rejected err \<Rightarrow>
                  st\<lparr>isRecording := False,
                     recordingStatus := ''Microphone permission denied.''\<rparr>
              | Fulfilled granted \<Rightarrow>
                  connectLive instruction e
                    (GeminiLiveApp_setupRecognition e
                       (st\<lparr>stream := True, tracks := granted\<rparr>))))"

text \<open>
  The object after its constructor: the field initializers of lines 30-73, then
  \<^verbatim>\<open>createNewNote\<close> (lines 996-1012), which empties both views and makes the
  interim span.
\<close>

definition initialApp :: "('a::zero) app" where
  "initialApp =
     ensureInterimSpan
       \<lparr>outputAudioContext = False, outputGainNode = False, nextStartTime = 0,
        isRecording = False, isWebSpeechActive = False, selectedSourceType = Mic,
        recordingStatus = [], stream = False, tracks = [], audioContext = False,
        sourceNode = False, processor = None, sessionPromise = None, sent = [], recognition = False, recognitionStarts = 0,
        timers = [], rawTranscription = [], rawInterimSpan = None, nextIdent = 0,
        translatedContent = [], translationRequests = []\<rparr>"

text \<open>
  \<^verbatim>\<open>stopLiveSession\<close> (lines 947-992). Everything up to the first \<^verbatim>\<open>await\<close> (closing the
  input context) runs at once when stop is invoked; the model gives the state at the
  end of the function. Dropping the processor drops its handler with it.
\<close>

definition stopLiveSession :: "('a, 'b) app_scheme \<Rightarrow> ('a, 'b) app_scheme" where
  "stopLiveSession st0 =
     (let st1 = st0\<lparr>isRecording := False, recordingStatus := ''Stopping...''\<rparr>;
          st2 = (if recognition st1 then st1\<lparr>isWebSpeechActive := False\<rparr> else st1);
          st3 = (if processor st2 \<noteq> None then st2\<lparr>processor := None\<rparr> else st2);
          st4 = (if sourceNode st3 then st3\<lparr>sourceNode := False\<rparr> else st3);
          st5 = (if stream st4
                 then st4\<lparr>tracks := map (\<lambda>t. t\<lparr>stopped := True\<rparr>) (tracks st4),
                         stream := False\<rparr>
                 else st4);
          st6 = (if audioContext st5 then st5\<lparr>audioContext := False\<rparr> else st5);
          st7 = (if outputAudioContext st6 then st6\<lparr>outputAudioContext := False\<rparr> else st6)
      in st7\<lparr>recordingStatus := ''Session Ended''\<rparr>)"

section \<open>Events of a session\<close>

text \<open>
  What can happen to a \<^verbatim>\<open>VoiceNotesApp\<close> between two starts: the recognizer delivers a
  result, an error or its end, the oldest pending timer fires, the processor delivers a
  frame, a translation comes back, the connection opens or delivers a message, or the
  session is stopped. A frame reaches the handler only while there is a processor that
  has one.
\<close>

datatype 'a event =
    RecognitionResult speechEvent
  | RecognitionError string
  | RecognitionEnd
  | TimerFires bool
  | AudioProcess "real list"
  | TranslationArrives generated
  | LiveOpen
  | LiveMessage "'a liveMessage"
  | Stop

text \<open>The callback of the status timer of \<^verbatim>\<open>GeminiLiveApp\<close> (lines 1186-1188).\<close>

definition resetStatus :: "('a, 'b) app_scheme \<Rightarrow> ('a, 'b) app_scheme" where
  "resetStatus st =
     (if \<not> isRecording st then st\<lparr>recordingStatus := ''Ready to stream''\<rparr> else st)"

definition fire :: "bool \<Rightarrow> ('a, 'b) app_scheme \<Rightarrow> ('a, 'b) app_scheme" where
  "fire startThrows st =
     (case timers st of
        [] \<Rightarrow> st
      | (delay, RestartRecognition) # rest \<Rightarrow> restartRecognition startThrows (st\<lparr>timers := rest\<rparr>)
      | (delay, ResetStatus) # rest \<Rightarrow> resetStatus (st\<lparr>timers := rest\<rparr>))"

fun dispatch ::
  "bool \<Rightarrow> string \<Rightarrow> ('a::{linorder,plus}) event \<Rightarrow> ('a, 'b) app_scheme \<Rightarrow>
   ('a, 'b) app_scheme" where
  "dispatch translating languageText (RecognitionResult ev) st =
     onresult translating languageText ev st"
| "dispatch translating languageText (RecognitionError code) st = onerror code st"
| "dispatch translating languageText RecognitionEnd st = onend st"
| "dispatch translating languageText (TimerFires startThrows) st = fire startThrows st"
| "dispatch translating languageText (AudioProcess inputData) st =
     (if processor st = Some True then audioprocess inputData st else st)"
| "dispatch translating languageText (TranslationArrives response) st =
     handleTranslationAndTTS response st"
| "dispatch translating languageText LiveOpen st = onopen translating st"
| "dispatch translating languageText (LiveMessage msg) st =
     handleLiveMessage msg translating st"
| "dispatch translating languageText Stop st = stopLiveSession st"

text \<open>
  The callbacks that can still arrive from the recognizer's restart logic and from the
  capture pipeline once a session is over: the recognizer's end, a pending timer, and
  an audio frame.
\<close>

fun lateCallback :: "'a event \<Rightarrow> bool" where
  "lateCallback RecognitionEnd = True"
| "lateCallback (TimerFires startThrows) = True"
| "lateCallback (AudioProcess inputData) = True"
| "lateCallback ev = False"

fun run ::
  "bool \<Rightarrow> string \<Rightarrow> ('a::{linorder,plus}) event list \<Rightarrow> ('a, 'b) app_scheme \<Rightarrow>
   ('a, 'b) app_scheme" where
  "run translating languageText [] st = st"
| "run translating languageText (ev # evs) st =
     run translating languageText evs (dispatch translating languageText ev st)"

section \<open>An example session\<close>

text \<open>
  The page asks for Spanish from US English. The microphone grants one audio track, the
  display capture one video track and no audio. The window has a recognizer, and no
  platform call throws.
\<close>

definition exampleEnv :: env where
  "exampleEnv =
     \<lparr>apiKey = True, unifiedSourceSelect = ''default'',
      selectedInputLanguage = ''en-US'', selectedOutputLanguage = ''es'',
      selectedOutputOption = Some ''Spanish'',
      getDisplayMedia = Fulfilled [\<lparr>kind = Video, stopped = False\<rparr>],
      getUserMedia = Fulfilled [\<lparr>kind = Audio, stopped = False\<rparr>],
      speechRecognitionInWindow = True, recognitionStartThrows = False,
      createMediaStreamSourceThrows = False\<rparr>"

section \<open>Results: playback scheduler\<close>

lemma playAudioChunk_buffer:
  "ready st \<Longrightarrow>
   playAudioChunk st now (AudioBuffer d) =
     (Some (max (nextStartTime st) now),
      st\<lparr>nextStartTime := max (nextStartTime st) now + d\<rparr>)"
  by (auto simp: playAudioChunk_def ready_def Let_def max_def)

lemma playAudioChunk_error:
  "playAudioChunk st now DecodeError = (None, st)"
  by (simp add: playAudioChunk_def)

text \<open>
  From a state whose cursor no later chunk overtakes, the scheduled start times are the
  cursor plus the durations so far, added in order.
\<close>

lemma playAll_onTime:
  "ready st \<Longrightarrow> onTime st chunks \<Longrightarrow> k < length (durations chunks) \<Longrightarrow>
   playAll st chunks ! k = foldl (+) (nextStartTime st) (take k (durations chunks))"
proof (induction chunks arbitrary: st k rule: durations.induct)
  case 1
  then show ?case by simp
next
  case (2 now rest)
  then show ?case by (simp add: playAudioChunk_error)
next
  case (3 now d rest)
  let ?st' = "st\<lparr>nextStartTime := nextStartTime st + d\<rparr>"
  from "3.prems"(2) have le: "now \<le> nextStartTime st" by simp
  then have mx: "max (nextStartTime st) now = nextStartTime st"
    by (simp add: max_def)
  have step: "playAudioChunk st now (AudioBuffer d) = (Some (nextStartTime st), ?st')"
    using playAudioChunk_buffer [OF "3.prems"(1), of now d] mx by simp
  have r': "ready ?st'"
    using "3.prems"(1) by (simp add: ready_def)
  have o': "onTime ?st' rest"
    using "3.prems"(2) step by simp
  show ?case
  proof (cases k)
    case 0
    then show ?thesis using step by simp
  next
    case (Suc j)
    with "3.prems"(3) have "j < length (durations rest)" by simp
    from "3.IH" [OF r' o' this] Suc step show ?thesis by simp
  qed
qed

text \<open>
  Claim C1. While the output context and gain node are there, a chunk that decodes is
  started at the maximum of the cursor and the current time of the output context, and
  the cursor becomes that start time plus the chunk's duration. Hence, for a first
  chunk followed by any further chunks none of which is scheduled with the clock past
  the cursor, the \<open>k\<close>-th scheduled chunk starts at the first chunk's start time plus the
  durations of the scheduled chunks before it, added in order. Chunks that fail to
  decode are dropped and leave no gap.
\<close>

theorem playback_gapless:
  assumes "ready st"
  shows "playAudioChunk st now (AudioBuffer d) =
           (Some (max (nextStartTime st) now),
            st\<lparr>nextStartTime := max (nextStartTime st) now + d\<rparr>) \<and>
         (onTime (snd (playAudioChunk st now (AudioBuffer d))) rest \<longrightarrow>
          (\<forall>k \<le> length (durations rest).
             playAll st ((now, AudioBuffer d) # rest) ! k =
               foldl (+) (max (nextStartTime st) now)
                 (take k (d # durations rest))))"
proof (intro conjI impI allI)
  show first: "playAudioChunk st now (AudioBuffer d) =
           (Some (max (nextStartTime st) now),
            st\<lparr>nextStartTime := max (nextStartTime st) now + d\<rparr>)"
    by (rule playAudioChunk_buffer [OF assms])
  fix k
  assume ot: "onTime (snd (playAudioChunk st now (AudioBuffer d))) rest"
    and k: "k \<le> length (durations rest)"
  let ?st' = "st\<lparr>nextStartTime := max (nextStartTime st) now + d\<rparr>"
  have r': "ready ?st'" using assms by (simp add: ready_def)
  have o': "onTime ?st' rest" using ot first by simp
  show "playAll st ((now, AudioBuffer d) # rest) ! k =
               foldl (+) (max (nextStartTime st) now) (take k (d # durations rest))"
  proof (cases k)
    case 0
    then show ?thesis using first by simp
  next
    case (Suc j)
    with k have "j < length (durations rest)" by simp
    from playAll_onTime [OF r' o' this] Suc first show ?thesis by simp
  qed
qed

text \<open>
  A session whose cursor starts at 0: a chunk of 2 seconds arrives at time 5, one of 3
  seconds at time 6, an undecodable one, and one of half a second at time 10. They
  start at 5, 7 and 10.
\<close>

theorem playback_gapless_witness:
  "ready \<lparr>outputAudioContext = True, outputGainNode = True, nextStartTime = (0::rat)\<rparr> \<and>
   onTime
     (snd (playAudioChunk
        \<lparr>outputAudioContext = True, outputGainNode = True, nextStartTime = (0::rat)\<rparr>
        5 (AudioBuffer 2)))
     [(6, AudioBuffer 3), (1, DecodeError), (10, AudioBuffer (1/2))] \<and>
   playAll \<lparr>outputAudioContext = True, outputGainNode = True, nextStartTime = (0::rat)\<rparr>
     [(5, AudioBuffer 2), (6, AudioBuffer 3), (1, DecodeError), (10, AudioBuffer (1/2))] ! 2
     = 5 + 2 + 3"
  using playback_gapless
    [of "\<lparr>outputAudioContext = True, outputGainNode = True, nextStartTime = (0::rat)\<rparr>" 5 2
      "[(6, AudioBuffer 3), (1, DecodeError), (10, AudioBuffer (1/2))]"]
  by (simp add: ready_def playAudioChunk_def)

section \<open>Results: PCM conversion\<close>

lemma trunc_scaled:
  assumes "- 32768 \<le> v" "v \<le> 32767"
  shows "trunc (real_of_int v / 32768 * 32767) = v - sgn v"
proof -
  have eq: "real_of_int v / 32768 * 32767 = real_of_int (v * 32767) / real_of_int 32768"
    by simp
  have fl: "\<lfloor>real_of_int v / 32768 * 32767\<rfloor> = (v * 32767) div 32768"
    unfolding eq by (rule floor_divide_of_int_eq)
  have ce: "\<lceil>real_of_int v / 32768 * 32767\<rceil> = - ((- (v * 32767)) div 32768)"
    unfolding eq by (rule ceiling_divide_eq_div)
  show ?thesis
  proof (cases "0 \<le> v")
    case True
    then have "0 \<le> real_of_int v / 32768 * 32767" by simp
    then have "trunc (real_of_int v / 32768 * 32767) = (v * 32767) div 32768"
      by (simp only: trunc_def fl if_True)
    also have "\<dots> = v - sgn v" using True assms by (cases "v = 0") (auto simp: sgn_if)
    finally show ?thesis .
  next
    case False
    then have "\<not> 0 \<le> real_of_int v / 32768 * 32767" by simp
    then have "trunc (real_of_int v / 32768 * 32767) = - ((- (v * 32767)) div 32768)"
      by (simp only: trunc_def ce if_False)
    also have "\<dots> = v - sgn v" using False assms by (auto simp: sgn_if)
    finally show ?thesis .
  qed
qed

lemma sint_int16: "- 32768 \<le> sint (w :: int16) \<and> sint w \<le> 32767"
  using sint_ge [of w] sint_lt [of w] by simp

lemma clamp_decodeSample: "max (- 1) (min 1 (decodeSample w)) = decodeSample w"
proof -
  have "- 1 \<le> decodeSample w" "decodeSample w \<le> 1"
    using sint_int16 [of w] by (simp_all add: decodeSample_def del: of_int_sint)
  then show ?thesis by simp
qed

lemma sint_word_of_int16:
  assumes "- 32768 \<le> i" "i \<le> 32767"
  shows "sint (word_of_int i :: int16) = i"
  using assms by (simp add: sint_sbintrunc' signed_take_bit_int_eq_self)

text \<open>Re-encoding a decoded sample moves it one step towards zero, unless it is zero.\<close>

lemma pcm_roundtrip: "sint (pcmSample (decodeSample w)) = sint w - sgn (sint w)"
proof -
  have r: "- 32768 \<le> sint w" "sint w \<le> 32767"
    using sint_int16 [of w] by simp_all
  have "trunc (max (- 1) (min 1 (decodeSample w)) * 32767) = sint w - sgn (sint w)"
    by (simp only: clamp_decodeSample) (simp only: decodeSample_def trunc_scaled [OF r])
  then have "pcmSample (decodeSample w) = word_of_int (sint w - sgn (sint w))"
    by (simp only: pcmSample_def toInt16_def)
  moreover have "- 32768 \<le> sint w - sgn (sint w)" "sint w - sgn (sint w) \<le> 32767"
    using r by (auto simp: sgn_if)
  ultimately show ?thesis by (simp only: sint_word_of_int16)
qed

text \<open>
  Claim C4. Every 16-bit sample, decoded by \<^verbatim>\<open>decodeAudioData\<close>'s division by 32768 and
  encoded again by the capture handler's quantization, comes back at most one step from
  where it was: at most 1 as an integer, at most 1/32768 after normalization.
\<close>

theorem pcm16_roundtrip_within_one_step:
  "\<bar>sint (pcmSample (decodeSample w)) - sint w\<bar> \<le> 1 \<and>
   \<bar>decodeSample (pcmSample (decodeSample w)) - decodeSample w\<bar> \<le> 1 / 32768"
proof -
  define D where "D = sint (pcmSample (decodeSample w)) - sint w"
  have a: "\<bar>D\<bar> \<le> 1"
    unfolding D_def by (simp only: pcm_roundtrip) (simp add: sgn_if)
  have "decodeSample (pcmSample (decodeSample w)) - decodeSample w = real_of_int D / 32768"
    unfolding D_def decodeSample_def by (simp only: of_int_diff diff_divide_distrib)
  then have "\<bar>decodeSample (pcmSample (decodeSample w)) - decodeSample w\<bar> =
        \<bar>real_of_int D / 32768\<bar>"
    by (rule arg_cong)
  also have "\<dots> = real_of_int \<bar>D\<bar> / 32768"
    by simp
  also have "\<dots> \<le> 1 / 32768"
    using a by (simp add: divide_right_mono)
  finally show ?thesis using a unfolding D_def by simp
qed

lemma trunc_bounds:
  assumes "- 32767 \<le> y" "y \<le> 32767"
  shows "- 32767 \<le> trunc y \<and> trunc y \<le> 32767"
  using assms unfolding trunc_def
  by (auto simp: le_floor_iff ceiling_le_iff floor_le_iff le_ceiling_iff)

lemma sint_pcmSample: "sint (pcmSample x) = trunc (max (- 1) (min 1 x) * 32767)"
proof -
  have "- 32767 \<le> max (- 1) (min 1 x) * 32767" "max (- 1) (min 1 x) * 32767 \<le> 32767"
    by (simp_all add: max_def min_def)
  from trunc_bounds [OF this] show ?thesis
    by (simp add: pcmSample_def toInt16_def sint_word_of_int16)
qed

text \<open>
  Claim C5, as the code has it. The handler does not round: the sample 0.25 gives
  8191.75, which the store into the \<^verbatim>\<open>Int16Array\<close> cuts to 8191, where rounding gives 8192.
\<close>

theorem capture_rounds_counterexample:
  "sint (pcmSample (1/4)) = 8191 \<and> round (max (- 1) (min 1 (1/4)) * 32767 :: real) = 8192"
  by (simp add: pcmSample_def toInt16_def trunc_def round_def)

text \<open>
  Claim C5, amended. Every finite sample \<open>x\<close> of a captured frame becomes the 16-bit
  signed integer obtained from \<open>clamp(x, -1, 1) * 32767\<close> by dropping its fraction (towards
  zero), without wrap-around, and the frame is then laid out as two bytes per sample.
\<close>

theorem capture_truncates:
  "map sint (pcmData inputData) = map (\<lambda>x. trunc (max (- 1) (min 1 x) * 32767)) inputData \<and>
   length (uint8View (pcmData inputData)) = 2 * length inputData"
proof
  show "map sint (pcmData inputData) =
          map (\<lambda>x. trunc (max (- 1) (min 1 x) * 32767)) inputData"
    by (simp add: pcmData_def sint_pcmSample)
  show "length (uint8View (pcmData inputData)) = 2 * length inputData"
    by (induction inputData) (simp_all add: uint8View_def pcmData_def)
qed

section \<open>Results: transcript state\<close>

text \<open>A text is trimmed to nothing exactly when all of it is white space.\<close>

lemma trim_Nil_iff: "trim s = [] \<longleftrightarrow> list_all isWhiteSpace s"
proof -
  have "trim s = [] \<longleftrightarrow> (\<forall>c \<in> set (dropWhile isWhiteSpace s). isWhiteSpace c)"
    by (simp add: trim_def)
  also have "\<dots> \<longleftrightarrow> dropWhile isWhiteSpace s = []"
  proof
    assume a: "\<forall>c \<in> set (dropWhile isWhiteSpace s). isWhiteSpace c"
    show "dropWhile isWhiteSpace s = []"
    proof (rule ccontr)
      assume n: "dropWhile isWhiteSpace s \<noteq> []"
      then have "\<not> isWhiteSpace (hd (dropWhile isWhiteSpace s))" by (rule hd_dropWhile)
      moreover have "hd (dropWhile isWhiteSpace s) \<in> set (dropWhile isWhiteSpace s)"
        using n by simp
      ultimately show False using a by blast
    qed
  next
    assume "dropWhile isWhiteSpace s = []"
    then show "\<forall>c \<in> set (dropWhile isWhiteSpace s). isWhiteSpace c"
      by (auto dest: set_dropWhileD)
  qed
  also have "\<dots> \<longleftrightarrow> list_all isWhiteSpace s"
    by (simp add: list_all_iff)
  finally show ?thesis .
qed


lemma interimLastD:
  assumes "interimLast st"
  obtains r segs i where "rawInterimSpan st = Some r" "rawTranscription st = segs @ [i]"
    "ident i = r" "className i = ''interim''" "r < nextIdent st"
    "\<forall>c \<in> set segs. className c = ''transcript-segment'' \<and> ident c \<noteq> r"
proof -
  from assms obtain r where r: "rawInterimSpan st = Some r"
    by (auto simp: interimLast_def split: option.splits)
  from assms r obtain i before where rv: "rev (rawTranscription st) = i # before"
    by (auto simp: interimLast_def split: list.splits)
  then have "rawTranscription st = rev before @ [i]"
    by (metis rev.simps(2) rev_rev_ident)
  moreover from assms r rv have "ident i = r" "className i = ''interim''" "r < nextIdent st"
    "\<forall>c \<in> set (rev before). className c = ''transcript-segment'' \<and> ident c \<noteq> r"
    by (auto simp: interimLast_def list_all_iff)
  ultimately show ?thesis using r that by blast
qed

lemma interimLastI:
  assumes "rawInterimSpan st = Some r" "rawTranscription st = segs @ [i]"
    "ident i = r" "className i = ''interim''" "r < nextIdent st"
    "\<forall>c \<in> set segs. className c = ''transcript-segment'' \<and> ident c \<noteq> r"
  shows "interimLast st"
  using assms by (simp add: interimLast_def list_all_iff)

lemma insertBefore_last:
  assumes "\<forall>c \<in> set segs. ident c \<noteq> r" "ident i = r"
  shows "insertBefore new r (segs @ [i]) = segs @ [new, i]"
  using assms by (induction segs) simp_all

lemma finalized_segs:
  assumes "rawTranscription st = segs @ [i]" "className i = ''interim''"
    "\<forall>c \<in> set segs. className c = ''transcript-segment'' \<and> ident c \<noteq> r"
  shows "finalized st = map textContent segs"
proof -
  have "filter (\<lambda>c. className c = ''transcript-segment'') segs = segs"
    using assms(3) by (simp add: filter_id_conv)
  then show ?thesis using assms(1,2) by (simp add: finalized_def segments_def)
qed

lemma interimText_segs:
  assumes "rawInterimSpan st = Some r" "rawTranscription st = segs @ [i]" "ident i = r"
    "\<forall>c \<in> set segs. className c = ''transcript-segment'' \<and> ident c \<noteq> r"
  shows "interimText st = Some (textContent i)"
proof -
  have "find (\<lambda>c. ident c = r) (segs @ [i]) = Some i"
    using assms(3,4) by (induction segs) simp_all
  then show ?thesis using assms(1,2) by (simp add: interimText_def)
qed

lemma attached:
  assumes "rawInterimSpan st = Some r" "rawTranscription st = segs @ [i]" "ident i = r"
  shows "interimAttached st"
  using assms by (simp add: interimAttached_def)


lemma appendRawSegment_step:
  assumes inv: "interimLast st" and nb: "\<not> list_all isWhiteSpace text"
  shows "interimLast (appendRawSegment text st) \<and>
         finalized (appendRawSegment text st) = finalized st @ [text @ '' ''] \<and>
         interimText (appendRawSegment text st) = interimText st"
proof -
  from inv obtain r segs i where
    r: "rawInterimSpan st = Some r" and ch: "rawTranscription st = segs @ [i]" and
    i: "ident i = r" "className i = ''interim''" and fresh: "r < nextIdent st" and
    segs: "\<forall>c \<in> set segs. className c = ''transcript-segment'' \<and> ident c \<noteq> r"
    by (rule interimLastD)
  define new where "new = \<lparr>ident = nextIdent st, className = ''transcript-segment'',
     textContent = text @ '' '', activeTranslation = False\<rparr>"
  define st' where "st' = st\<lparr>nextIdent := Suc (nextIdent st),
     rawTranscription := segs @ [new, i]\<rparr>"
  have "text \<noteq> []" "trim text \<noteq> []"
    using nb by (auto simp: trim_Nil_iff)
  moreover have "interimAttached st" using r ch i(1) by (rule attached)
  moreover have "insertBefore new r (segs @ [i]) = segs @ [new, i]"
    using segs i(1) by (simp add: insertBefore_last)
  ultimately have eq: "appendRawSegment text st = st'"
    using r ch by (simp add: appendRawSegment_def Let_def new_def st'_def)
  have r': "rawInterimSpan st' = Some r" and ch': "rawTranscription st' = (segs @ [new]) @ [i]"
    and fresh': "r < nextIdent st'"
    using r fresh by (simp_all add: st'_def)
  have segs': "\<forall>c \<in> set (segs @ [new]). className c = ''transcript-segment'' \<and> ident c \<noteq> r"
    using segs fresh by (auto simp: new_def)
  have "interimLast st'"
    using r' ch' i fresh' segs' by (rule interimLastI)
  moreover have "finalized st' = finalized st @ [text @ '' '']"
    using finalized_segs [OF ch' i(2) segs'] finalized_segs [OF ch i(2) segs]
    by (simp add: new_def)
  moreover have "interimText st' = interimText st"
    using interimText_segs [OF r' ch' i(1) segs'] interimText_segs [OF r ch i(1) segs]
    by simp
  ultimately show ?thesis by (simp only: eq) 
qed

lemma ensureInterimSpan_attached: "interimAttached st \<Longrightarrow> ensureInterimSpan st = st"
  by (simp add: ensureInterimSpan_def)

lemma updateInterimText_step:
  assumes inv: "interimLast st"
  shows "interimLast (updateInterimText text st) \<and>
         finalized (updateInterimText text st) = finalized st \<and>
         interimText (updateInterimText text st) = Some text"
proof -
  from inv obtain r segs i where
    r: "rawInterimSpan st = Some r" and ch: "rawTranscription st = segs @ [i]" and
    i: "ident i = r" "className i = ''interim''" and fresh: "r < nextIdent st" and
    segs: "\<forall>c \<in> set segs. className c = ''transcript-segment'' \<and> ident c \<noteq> r"
    by (rule interimLastD)
  define st' where "st' = st\<lparr>rawTranscription := segs @ [i\<lparr>textContent := text\<rparr>]\<rparr>"
  have att: "interimAttached st" using r ch i(1) by (rule attached)
  have "map (\<lambda>c. if ident c = r then c\<lparr>textContent := text\<rparr> else c) segs = segs"
    using segs by (simp add: map_idI)
  then have eq: "updateInterimText text st = st'"
    using r ch i(1) by (simp add: updateInterimText_def ensureInterimSpan_attached [OF att] st'_def)
  have r': "rawInterimSpan st' = Some r"
    and ch': "rawTranscription st' = segs @ [i\<lparr>textContent := text\<rparr>]"
    and fresh': "r < nextIdent st'"
    and i': "ident (i\<lparr>textContent := text\<rparr>) = r" "className (i\<lparr>textContent := text\<rparr>) = ''interim''"
    using r fresh i by (simp_all add: st'_def)
  have "interimLast st'"
    using r' ch' i' fresh' segs by (rule interimLastI)
  moreover have "finalized st' = finalized st"
    using finalized_segs [OF ch' i'(2) segs] finalized_segs [OF ch i(2) segs] by simp
  moreover have "interimText st' = Some text"
    using interimText_segs [OF r' ch' i'(1) segs] by simp
  ultimately show ?thesis by (simp only: eq)
qed

lemma resetSession_transcript:
  "interimLast (resetSession st) \<and> finalized (resetSession st) = [] \<and>
   interimText (resetSession st) = Some []"
  by (simp add: resetSession_def ensureInterimSpan_def interimAttached_def interimLast_def
      finalized_def segments_def interimText_def)

lemma transcript_translationRequests [simp]:
  "interimLast (st\<lparr>translationRequests := q\<rparr>) = interimLast st"
  "finalized (st\<lparr>translationRequests := q\<rparr>) = finalized st"
  "interimText (st\<lparr>translationRequests := q\<rparr>) = interimText st"
  by (simp_all add: interimLast_def finalized_def segments_def interimText_def
      cong: option.case_cong list.case_cong)

text \<open>An event whose results from \<open>resultIndex\<close> on are one final result.\<close>

lemma onresult_final:
  assumes inv: "interimLast st" and nb: "\<not> list_all isWhiteSpace text"
    and ev: "drop (resultIndex ev) (results ev) = [(True, text)]"
  shows "interimLast (onresult tr lang ev st) \<and>
         finalized (onresult tr lang ev st) = finalized st @ [text @ '' ''] \<and>
         interimText (onresult tr lang ev st) = Some []"
proof -
  have ne: "text \<noteq> []" using nb by auto
  define st1 where "st1 = (let st' = appendRawSegment text st
                   in if selectedSourceType st' = Mic \<and> tr
                      then st'\<lparr>translationRequests :=
                                 translationRequests st' @ [(text, lang)]\<rparr>
                      else st')"
  have a: "interimLast st1 \<and> finalized st1 = finalized st @ [text @ '' '']"
    using appendRawSegment_step [OF inv nb] by (simp add: st1_def Let_def)
  have "onresult tr lang ev st = updateInterimText [] st1"
    using ne by (simp add: onresult_def ev st1_def)
  then show ?thesis
    using updateInterimText_step [of st1 "[]"] a by simp
qed

lemma onresult_interim:
  assumes inv: "interimLast st"
    and ev: "drop (resultIndex ev) (results ev) = [(False, text)]"
  shows "interimLast (onresult tr lang ev st) \<and>
         finalized (onresult tr lang ev st) = finalized st \<and>
         interimText (onresult tr lang ev st) = Some text"
proof -
  have "onresult tr lang ev st = updateInterimText text st"
    by (simp add: onresult_def ev)
  then show ?thesis
    using updateInterimText_step [OF inv, of "text"] by simp
qed


text \<open>
  Claim C3, as the code has it. A final result that is a single space is dropped by
  \<^verbatim>\<open>appendRawSegment\<close>, so after it, the interim text and the final \<open>ab\<close>, the
  finalized sequence has one segment, not two.
\<close>

theorem blank_first_final_counterexample:
  "finalized
     (onresult False [] \<lparr>resultIndex = 1, results = [(True, '' ''), (True, ''ab'')]\<rparr>
       (onresult False [] \<lparr>resultIndex = 1, results = [(True, '' ''), (False, ''ab'')]\<rparr>
         (onresult False [] \<lparr>resultIndex = 0, results = [(True, '' '')]\<rparr>
           (resetSession (initialApp :: real app))))) = [''ab '']"
  by (simp add: onresult_def appendRawSegment_def updateInterimText_def ensureInterimSpan_def
      interimAttached_def resetSession_def initialApp_def trim_def isWhiteSpace_def
      finalized_def segments_def Let_def)

text \<open>
  Claim C3, amended. From any state in which the interim span is the last child, and for
  a first final text \<open>F1\<close> that is not blank: after the result events for the final
  \<open>F1\<close>, the interim \<open>ab\<close> and the final \<open>ab\<close>, the interim slot shows \<open>ab\<close> in between and
  is empty at the end, and the finalized sequence has grown by exactly \<open>F1\<close> and \<open>ab\<close>, in
  that order, each followed by the separating space the code appends. Any interim update
  replaces the interim text whole, leaves the finalized sequence as it is and keeps the
  interim span last; any finalization keeps the interim span last, leaves its text
  alone, and adds to the finalized sequence nothing but the text it was given.
\<close>

theorem transcript_interim_and_finals:
  assumes inv: "interimLast st" and nb: "\<not> list_all isWhiteSpace F1"
  shows "(let st1 = onresult tr lang \<lparr>resultIndex = 0, results = [(True, F1)]\<rparr> st;
              st2 = onresult tr lang
                      \<lparr>resultIndex = 1, results = [(True, F1), (False, ''ab'')]\<rparr> st1;
              st3 = onresult tr lang
                      \<lparr>resultIndex = 1, results = [(True, F1), (True, ''ab'')]\<rparr> st2
          in interimText st2 = Some ''ab'' \<and> interimText st3 = Some [] \<and>
             finalized st3 = finalized st @ [F1 @ '' '', ''ab ''] \<and> interimLast st3) \<and>
         interimText (updateInterimText t st) = Some t \<and>
         finalized (updateInterimText t st) = finalized st \<and>
         interimLast (updateInterimText t st) \<and>
         interimLast (appendRawSegment t st) \<and>
         finalized (appendRawSegment t st) =
           (if list_all isWhiteSpace t then finalized st else finalized st @ [t @ '' '']) \<and>
         interimText (appendRawSegment t st) = interimText st"
proof -
  define st1 where "st1 = onresult tr lang \<lparr>resultIndex = 0, results = [(True, F1)]\<rparr> st"
  define st2 where
    "st2 = onresult tr lang \<lparr>resultIndex = 1, results = [(True, F1), (False, ''ab'')]\<rparr> st1"
  define st3 where
    "st3 = onresult tr lang \<lparr>resultIndex = 1, results = [(True, F1), (True, ''ab'')]\<rparr> st2"
  have s1: "interimLast st1 \<and> finalized st1 = finalized st @ [F1 @ '' ''] \<and>
            interimText st1 = Some []"
    unfolding st1_def by (rule onresult_final [OF inv nb]) simp
  have s2: "interimLast st2 \<and> finalized st2 = finalized st1 \<and> interimText st2 = Some ''ab''"
    unfolding st2_def using s1 by (intro onresult_interim) simp_all
  have ab: "\<not> list_all isWhiteSpace ''ab''"
    by (simp add: isWhiteSpace_def)
  have s3: "interimLast st3 \<and> finalized st3 = finalized st2 @ [''ab'' @ '' ''] \<and>
            interimText st3 = Some []"
    unfolding st3_def using s2 ab by (intro onresult_final) simp_all
  have scenario: "interimText st2 = Some ''ab'' \<and> interimText st3 = Some [] \<and>
      finalized st3 = finalized st @ [F1 @ '' '', ''ab ''] \<and> interimLast st3"
    using s1 s2 s3 by simp
  have app: "finalized (appendRawSegment t st) =
           (if list_all isWhiteSpace t then finalized st else finalized st @ [t @ '' '']) \<and>
        interimLast (appendRawSegment t st) \<and>
        interimText (appendRawSegment t st) = interimText st"
  proof (cases "list_all isWhiteSpace t")
    case True
    then have "appendRawSegment t st = st"
      by (simp add: appendRawSegment_def trim_Nil_iff)
    then show ?thesis using True inv by simp
  next
    case False
    from appendRawSegment_step [OF inv False] False show ?thesis by simp
  qed
  show ?thesis
    using scenario updateInterimText_step [OF inv, of t] app
    unfolding st1_def st2_def st3_def Let_def by simp
qed

text \<open>A session just started, the first final being \<open>hi\<close>.\<close>

theorem transcript_witness:
  "interimLast (resetSession (initialApp :: real app)) \<and>
   \<not> list_all isWhiteSpace ''hi'' \<and>
   finalized
     (onresult False [] \<lparr>resultIndex = 1, results = [(True, ''hi''), (True, ''ab'')]\<rparr>
       (onresult False [] \<lparr>resultIndex = 1, results = [(True, ''hi''), (False, ''ab'')]\<rparr>
         (onresult False [] \<lparr>resultIndex = 0, results = [(True, ''hi'')]\<rparr>
           (resetSession (initialApp :: real app))))) = [''hi '', ''ab '']"
  using transcript_interim_and_finals
    [of "resetSession (initialApp :: real app)" "''hi''" False "[]" "[]"]
  by (simp add: resetSession_transcript isWhiteSpace_def Let_def)

text \<open>
  Claim C10. When the text is empty or all white space, \<^verbatim>\<open>appendRawSegment\<close> returns the
  state it was given: no segment is added, and the finalized segments and the interim
  slot are as before.
\<close>

theorem blank_final_dropped:
  assumes "text = [] \<or> list_all isWhiteSpace text"
  shows "appendRawSegment text st = st \<and>
         finalized (appendRawSegment text st) = finalized st \<and>
         interimText (appendRawSegment text st) = interimText st"
proof -
  from assms have "list_all isWhiteSpace text" by auto
  then have "appendRawSegment text st = st"
    by (simp add: appendRawSegment_def trim_Nil_iff)
  then show ?thesis by simp
qed

text \<open>A space and a tab, in the state the constructor leaves.\<close>

theorem blank_final_dropped_witness:
  "list_all isWhiteSpace [CHR '' '', CHR 0x09] \<and>
   appendRawSegment [CHR '' '', CHR 0x09] (initialApp :: real app) = initialApp"
  using blank_final_dropped [of "[CHR '' '', CHR 0x09]" "initialApp :: real app"]
  by (simp add: isWhiteSpace_def)

section \<open>Results: translation client\<close>

text \<open>
  Claim C8. When the translation request fails or its result is empty,
  \<^verbatim>\<open>translateTextWithFlash\<close> yields the empty string (it has no other way out: the whole
  body is inside the \<^verbatim>\<open>try\<close>), and \<^verbatim>\<open>handleTranslationAndTTS\<close> returns the state it found:
  nothing is added to the translated view, no highlight changes, and nothing is sent to
  the live session.
\<close>

theorem translation_failure_is_silent:
  assumes "failedOrEmpty response"
  shows "translateTextWithFlash response = [] \<and>
         handleTranslationAndTTS response st = st \<and>
         translatedContent (handleTranslationAndTTS response st) = translatedContent st \<and>
         rawTranscription (handleTranslationAndTTS response st) = rawTranscription st \<and>
         sent (handleTranslationAndTTS response st) = sent st"
proof -
  have "translateTextWithFlash response = []"
    using assms
    by (auto simp: failedOrEmpty_def translateTextWithFlash_def trim_Nil_iff
        split: generated.splits option.splits)
  then show ?thesis by (simp add: handleTranslationAndTTS_def)
qed

text \<open>The endpoint answers with a single space while a session is connected.\<close>

theorem translation_failure_is_silent_witness:
  "failedOrEmpty (Response (Some '' '')) \<and>
   handleTranslationAndTTS (Response (Some '' ''))
     ((initialApp :: real app)\<lparr>sessionPromise := Some []\<rparr>) =
     initialApp\<lparr>sessionPromise := Some []\<rparr>"
  using translation_failure_is_silent
    [of "Response (Some '' '')" "(initialApp :: real app)\<lparr>sessionPromise := Some []\<rparr>"]
  by (simp add: failedOrEmpty_def isWhiteSpace_def)

section \<open>Results: local recognition\<close>

text \<open>The transcript operations leave the recognizer's flag, its start count and the timers alone.\<close>

lemma ensureInterimSpan_recognizer:
  "isWebSpeechActive (ensureInterimSpan st) = isWebSpeechActive st \<and>
   recognitionStarts (ensureInterimSpan st) = recognitionStarts st \<and>
   timers (ensureInterimSpan st) = timers st \<and>
   selectedSourceType (ensureInterimSpan st) = selectedSourceType st"
  by (simp add: ensureInterimSpan_def)

lemma appendRawSegment_recognizer:
  "isWebSpeechActive (appendRawSegment t st) = isWebSpeechActive st \<and>
   recognitionStarts (appendRawSegment t st) = recognitionStarts st \<and>
   timers (appendRawSegment t st) = timers st \<and>
   selectedSourceType (appendRawSegment t st) = selectedSourceType st"
  by (simp add: appendRawSegment_def ensureInterimSpan_recognizer Let_def split: option.splits)

lemma updateInterimText_recognizer:
  "isWebSpeechActive (updateInterimText t st) = isWebSpeechActive st \<and>
   recognitionStarts (updateInterimText t st) = recognitionStarts st \<and>
   timers (updateInterimText t st) = timers st"
  by (simp add: updateInterimText_def ensureInterimSpan_recognizer Let_def split: option.splits)

lemma onresult_recognizer:
  "isWebSpeechActive (onresult tr lang ev st) = isWebSpeechActive st \<and>
   recognitionStarts (onresult tr lang ev st) = recognitionStarts st \<and>
   timers (onresult tr lang ev st) = timers st"
  by (simp add: onresult_def updateInterimText_recognizer appendRawSegment_recognizer Let_def
      split: prod.splits)

lemma handleTranslationAndTTS_recognizer:
  "isWebSpeechActive (handleTranslationAndTTS r st) = isWebSpeechActive st \<and>
   recognitionStarts (handleTranslationAndTTS r st) = recognitionStarts st \<and>
   timers (handleTranslationAndTTS r st) = timers st"
  by (simp add: handleTranslationAndTTS_def highlightActiveSegment_def appendTranslatedText_def
      Let_def split: list.splits)

lemma highlightActiveSegment_recognizer:
  "isWebSpeechActive (highlightActiveSegment st) = isWebSpeechActive st \<and>
   recognitionStarts (highlightActiveSegment st) = recognitionStarts st \<and>
   timers (highlightActiveSegment st) = timers st \<and>
   selectedSourceType (highlightActiveSegment st) = selectedSourceType st"
  by (simp add: highlightActiveSegment_def split: list.splits)

lemma playAudioChunk_recognizer:
  "isWebSpeechActive (snd (playAudioChunk st now chunk)) = isWebSpeechActive st \<and>
   recognitionStarts (snd (playAudioChunk st now chunk)) = recognitionStarts st \<and>
   timers (snd (playAudioChunk st now chunk)) = timers st \<and>
   selectedSourceType (snd (playAudioChunk st now chunk)) = selectedSourceType st"
  by (simp add: playAudioChunk_def Let_def split: decoded.splits)

lemma appendTranslatedText_recognizer:
  "isWebSpeechActive (appendTranslatedText t st) = isWebSpeechActive st \<and>
   recognitionStarts (appendTranslatedText t st) = recognitionStarts st \<and>
   timers (appendTranslatedText t st) = timers st"
  by (simp add: appendTranslatedText_def)

lemma handleLiveMessage_recognizer:
  "isWebSpeechActive (handleLiveMessage m tr st) = isWebSpeechActive st \<and>
   recognitionStarts (handleLiveMessage m tr st) = recognitionStarts st \<and>
   timers (handleLiveMessage m tr st) = timers st"
  by (simp add: handleLiveMessage_def Let_def playAudioChunk_recognizer
      highlightActiveSegment_recognizer appendRawSegment_recognizer
      appendTranslatedText_recognizer split: option.splits prod.splits)

lemma stopLiveSession_recognizer:
  "recognitionStarts (stopLiveSession st) = recognitionStarts st \<and>
   timers (stopLiveSession st) = timers st \<and>
   (\<not> isWebSpeechActive st \<longrightarrow> \<not> isWebSpeechActive (stopLiveSession st))"
  by (simp add: stopLiveSession_def Let_def)

lemma dispatch_inactive:
  assumes "\<not> isWebSpeechActive st"
  shows "\<not> isWebSpeechActive (dispatch tr lang ev st) \<and>
         recognitionStarts (dispatch tr lang ev st) = recognitionStarts st \<and>
         length (timers (dispatch tr lang ev st)) \<le> length (timers st)"
proof (cases ev)
  case (RecognitionResult e)
  then show ?thesis using assms by (simp add: onresult_recognizer)
next
  case (RecognitionError code)
  then show ?thesis using assms by (simp add: onerror_def)
next
  case RecognitionEnd
  then show ?thesis using assms by (simp add: onend_def)
next
  case (TimerFires b)
  then show ?thesis using assms
    by (simp add: fire_def restartRecognition_def resetStatus_def
        split: list.splits prod.splits callback.splits)
next
  case (AudioProcess xs)
  then show ?thesis using assms by (simp add: audioprocess_def Let_def)
next
  case (TranslationArrives r)
  then show ?thesis using assms by (simp add: handleTranslationAndTTS_recognizer)
next
  case LiveOpen
  then show ?thesis using assms by (simp add: onopen_def Let_def)
next
  case (LiveMessage m)
  then show ?thesis using assms by (simp add: handleLiveMessage_recognizer)
next
  case Stop
  then show ?thesis using assms stopLiveSession_recognizer [of st] by simp
qed

lemma run_inactive:
  assumes "\<not> isWebSpeechActive st"
  shows "\<not> isWebSpeechActive (run tr lang evs st) \<and>
         recognitionStarts (run tr lang evs st) = recognitionStarts st \<and>
         length (timers (run tr lang evs st)) \<le> length (timers st)"
  using assms
proof (induction evs arbitrary: st)
  case Nil
  then show ?case by simp
next
  case (Cons ev evs)
  from dispatch_inactive [OF Cons.prems, of tr lang ev]
  have d: "\<not> isWebSpeechActive (dispatch tr lang ev st)"
    "recognitionStarts (dispatch tr lang ev st) = recognitionStarts st"
    "length (timers (dispatch tr lang ev st)) \<le> length (timers st)" by simp_all
  from Cons.IH [OF d(1)] d(2,3) show ?case by simp
qed

text \<open>
  Claim C7. After an error \<open>not-allowed\<close> or \<open>aborted\<close> the active flag is off, and whatever
  events follow in the session, it stays off, \<^verbatim>\<open>recognition.start()\<close> is not called again
  and no timer is added. Any other error code leaves the state as it is, and
  restart-on-end works as before: with the session recording and the recognizer active,
  the end of recognition sets a timer of 100 ms, and when it fires the recognizer is
  started again, or, if that start throws, the active flag is turned off.
\<close>

theorem recognizer_error_classification:
  "(code = ''not-allowed'' \<or> code = ''aborted'' \<longrightarrow>
      \<not> isWebSpeechActive (onerror code st) \<and>
      \<not> isWebSpeechActive (run tr lang evs (onerror code st)) \<and>
      recognitionStarts (run tr lang evs (onerror code st)) = recognitionStarts st \<and>
      length (timers (run tr lang evs (onerror code st))) \<le> length (timers st)) \<and>
   (code \<noteq> ''not-allowed'' \<and> code \<noteq> ''aborted'' \<longrightarrow>
      onerror code st = st \<and>
      (isRecording st \<and> isWebSpeechActive st \<and> timers st = [] \<longrightarrow>
         timers (run tr lang [RecognitionError code, RecognitionEnd] st)
           = [(100, RestartRecognition)] \<and>
         recognitionStarts
           (run tr lang [RecognitionError code, RecognitionEnd, TimerFires False] st)
           = Suc (recognitionStarts st) \<and>
         isWebSpeechActive
           (run tr lang [RecognitionError code, RecognitionEnd, TimerFires False] st) \<and>
         recognitionStarts
           (run tr lang [RecognitionError code, RecognitionEnd, TimerFires True] st)
           = recognitionStarts st \<and>
         \<not> isWebSpeechActive
           (run tr lang [RecognitionError code, RecognitionEnd, TimerFires True] st)))"
proof (intro conjI impI)
  assume fatal: "code = ''not-allowed'' \<or> code = ''aborted''"
  then show off: "\<not> isWebSpeechActive (onerror code st)"
    by (auto simp: onerror_def)
  have same: "recognitionStarts (onerror code st) = recognitionStarts st"
    "timers (onerror code st) = timers st"
    by (simp_all add: onerror_def)
  from run_inactive [OF off, of tr lang evs] same
  show "\<not> isWebSpeechActive (run tr lang evs (onerror code st))"
    "recognitionStarts (run tr lang evs (onerror code st)) = recognitionStarts st"
    "length (timers (run tr lang evs (onerror code st))) \<le> length (timers st)"
    by simp_all
next
  assume other: "code \<noteq> ''not-allowed'' \<and> code \<noteq> ''aborted''"
  then show id: "onerror code st = st" by (simp add: onerror_def)
  assume live: "isRecording st \<and> isWebSpeechActive st \<and> timers st = []"
  show "timers (run tr lang [RecognitionError code, RecognitionEnd] st)
           = [(100, RestartRecognition)]"
    using live by (simp add: id onend_def)
  show "recognitionStarts
           (run tr lang [RecognitionError code, RecognitionEnd, TimerFires False] st)
           = Suc (recognitionStarts st)"
    using live by (simp add: id onend_def fire_def restartRecognition_def)
  show "isWebSpeechActive
           (run tr lang [RecognitionError code, RecognitionEnd, TimerFires False] st)"
    using live by (simp add: id onend_def fire_def restartRecognition_def)
  show "recognitionStarts
           (run tr lang [RecognitionError code, RecognitionEnd, TimerFires True] st)
           = recognitionStarts st"
    using live by (simp add: id onend_def fire_def restartRecognition_def)
  show "\<not> isWebSpeechActive
           (run tr lang [RecognitionError code, RecognitionEnd, TimerFires True] st)"
    using live by (simp add: id onend_def fire_def restartRecognition_def)
qed

text \<open>
  The example session just started: first with the error \<open>not-allowed\<close> followed by an end
  and a timer, then with the error \<open>no-speech\<close>.
\<close>

theorem recognizer_error_classification_witness:
  "\<not> isWebSpeechActive
      (run True ''Spanish'' [RecognitionEnd, TimerFires False]
        (onerror ''not-allowed'' (startLiveSession exampleEnv (initialApp :: real app)))) \<and>
   recognitionStarts
      (run True ''Spanish'' [RecognitionEnd, TimerFires False]
        (onerror ''not-allowed'' (startLiveSession exampleEnv (initialApp :: real app)))) = 1 \<and>
   isRecording (startLiveSession exampleEnv (initialApp :: real app)) \<and>
   isWebSpeechActive (startLiveSession exampleEnv (initialApp :: real app)) \<and>
   timers (startLiveSession exampleEnv (initialApp :: real app)) = [] \<and>
   recognitionStarts
      (run True ''Spanish'' [RecognitionError ''no-speech'', RecognitionEnd, TimerFires False]
        (startLiveSession exampleEnv (initialApp :: real app))) = 2"
  using recognizer_error_classification
    [of "''not-allowed''" "startLiveSession exampleEnv (initialApp :: real app)"
        True "''Spanish''" "[RecognitionEnd, TimerFires False]"]
    recognizer_error_classification
    [of "''no-speech''" "startLiveSession exampleEnv (initialApp :: real app)"
        True "''Spanish''" "[]"]
  by code_simp

section \<open>Results: stopping a session\<close>

lemma dispatch_stopped:
  assumes "\<not> isRecording st" "processor st = None" "lateCallback ev"
  shows "\<not> isRecording (dispatch tr lang ev st) \<and>
         processor (dispatch tr lang ev st) = None \<and>
         recognitionStarts (dispatch tr lang ev st) = recognitionStarts st \<and>
         sent (dispatch tr lang ev st) = sent st \<and>
         rawTranscription (dispatch tr lang ev st) = rawTranscription st \<and>
         translationRequests (dispatch tr lang ev st) = translationRequests st \<and>
         length (timers (dispatch tr lang ev st)) \<le> length (timers st)"
proof (cases ev)
  case RecognitionEnd
  then show ?thesis using assms by (simp add: onend_def)
next
  case (TimerFires b)
  then show ?thesis using assms
    by (simp add: fire_def restartRecognition_def resetStatus_def
        split: list.splits prod.splits callback.splits)
next
  case (AudioProcess xs)
  then show ?thesis using assms by simp
qed (use assms in simp_all)

lemma run_stopped:
  assumes "\<not> isRecording st" "processor st = None" "list_all lateCallback evs"
  shows "\<not> isRecording (run tr lang evs st) \<and>
         processor (run tr lang evs st) = None \<and>
         recognitionStarts (run tr lang evs st) = recognitionStarts st \<and>
         sent (run tr lang evs st) = sent st \<and>
         rawTranscription (run tr lang evs st) = rawTranscription st \<and>
         translationRequests (run tr lang evs st) = translationRequests st \<and>
         length (timers (run tr lang evs st)) \<le> length (timers st)"
  using assms
proof (induction evs arbitrary: st)
  case Nil
  then show ?case by simp
next
  case (Cons ev evs)
  from Cons.prems(3) have ev: "lateCallback ev" and evs: "list_all lateCallback evs"
    by simp_all
  from dispatch_stopped [OF Cons.prems(1,2) ev, of tr lang]
  have d: "\<not> isRecording (dispatch tr lang ev st)" "processor (dispatch tr lang ev st) = None"
    "recognitionStarts (dispatch tr lang ev st) = recognitionStarts st"
    "sent (dispatch tr lang ev st) = sent st"
    "rawTranscription (dispatch tr lang ev st) = rawTranscription st"
    "translationRequests (dispatch tr lang ev st) = translationRequests st"
    "length (timers (dispatch tr lang ev st)) \<le> length (timers st)"
    by simp_all
  from Cons.IH [OF d(1,2) evs] d(3-7) show ?case by simp
qed

lemma stopLiveSession_fields:
  "\<not> isRecording (stopLiveSession st) \<and> processor (stopLiveSession st) = None \<and>
   recognitionStarts (stopLiveSession st) = recognitionStarts st \<and>
   sent (stopLiveSession st) = sent st \<and>
   rawTranscription (stopLiveSession st) = rawTranscription st \<and>
   translationRequests (stopLiveSession st) = translationRequests st \<and>
   timers (stopLiveSession st) = timers st \<and>
   list_all stopped (tracks (stopLiveSession st)) = (stream st \<or> list_all stopped (tracks st))"
  by (simp add: stopLiveSession_def Let_def list_all_iff)

text \<open>
  The start of a session in its two phases, and what the handlers leave alone once a
  session is stopped.
\<close>

lemma startLiveSession_phases:
  "startLiveSession e st = resumeLiveSession e (resetSession st)"
  by (simp add: startLiveSession_def resumeLiveSession_def Let_def)

lemma realtimeInputs_append:
  "realtimeInputs (xs @ ys) = realtimeInputs xs @ realtimeInputs ys"
  by (induction xs rule: realtimeInputs.induct) simp_all

lemma ensureInterimSpan_capture:
  "isRecording (ensureInterimSpan st) = isRecording st \<and>
   processor (ensureInterimSpan st) = processor st \<and>
   sent (ensureInterimSpan st) = sent st"
  by (simp add: ensureInterimSpan_def)

lemma appendRawSegment_capture:
  "isRecording (appendRawSegment t st) = isRecording st \<and>
   processor (appendRawSegment t st) = processor st \<and>
   sent (appendRawSegment t st) = sent st"
  by (simp add: appendRawSegment_def ensureInterimSpan_capture Let_def split: option.splits)

lemma updateInterimText_capture:
  "isRecording (updateInterimText t st) = isRecording st \<and>
   processor (updateInterimText t st) = processor st \<and>
   sent (updateInterimText t st) = sent st"
  by (simp add: updateInterimText_def ensureInterimSpan_capture Let_def split: option.splits)

lemma onresult_capture:
  "isRecording (onresult tr lang ev st) = isRecording st \<and>
   processor (onresult tr lang ev st) = processor st \<and>
   sent (onresult tr lang ev st) = sent st"
  by (simp add: onresult_def updateInterimText_capture appendRawSegment_capture Let_def
      split: prod.splits)

lemma handleTranslationAndTTS_capture:
  "isRecording (handleTranslationAndTTS r st) = isRecording st \<and>
   processor (handleTranslationAndTTS r st) = processor st \<and>
   realtimeInputs (sent (handleTranslationAndTTS r st)) = realtimeInputs (sent st)"
  by (simp add: handleTranslationAndTTS_def highlightActiveSegment_def appendTranslatedText_def
      realtimeInputs_append Let_def split: list.splits)

lemma highlightActiveSegment_capture:
  "isRecording (highlightActiveSegment st) = isRecording st \<and>
   processor (highlightActiveSegment st) = processor st \<and>
   sent (highlightActiveSegment st) = sent st"
  by (simp add: highlightActiveSegment_def split: list.splits)

lemma playAudioChunk_capture:
  "isRecording (snd (playAudioChunk st now chunk)) = isRecording st \<and>
   processor (snd (playAudioChunk st now chunk)) = processor st \<and>
   sent (snd (playAudioChunk st now chunk)) = sent st"
  by (simp add: playAudioChunk_def Let_def split: decoded.splits)

lemma appendTranslatedText_capture:
  "isRecording (appendTranslatedText t st) = isRecording st \<and>
   processor (appendTranslatedText t st) = processor st \<and>
   sent (appendTranslatedText t st) = sent st"
  by (simp add: appendTranslatedText_def)

lemma handleLiveMessage_capture:
  "isRecording (handleLiveMessage m tr st) = isRecording st \<and>
   processor (handleLiveMessage m tr st) = processor st \<and>
   sent (handleLiveMessage m tr st) = sent st"
  by (simp add: handleLiveMessage_def Let_def playAudioChunk_capture
      highlightActiveSegment_capture appendRawSegment_capture
      appendTranslatedText_capture split: option.splits prod.splits)

lemma dispatch_after_stop:
  assumes "\<not> isRecording st" "processor st = None"
  shows "\<not> isRecording (dispatch tr lang ev st) \<and>
         processor (dispatch tr lang ev st) = None \<and>
         recognitionStarts (dispatch tr lang ev st) = recognitionStarts st \<and>
         length (timers (dispatch tr lang ev st)) \<le> length (timers st) \<and>
         realtimeInputs (sent (dispatch tr lang ev st)) = realtimeInputs (sent st)"
proof (cases ev)
  case (RecognitionResult e)
  then show ?thesis using assms by (simp add: onresult_capture onresult_recognizer)
next
  case (RecognitionError code)
  then show ?thesis using assms by (simp add: onerror_def)
next
  case RecognitionEnd
  then show ?thesis using assms by (simp add: onend_def)
next
  case (TimerFires b)
  then show ?thesis using assms
    by (simp add: fire_def restartRecognition_def resetStatus_def
        split: list.splits prod.splits callback.splits)
next
  case (AudioProcess xs)
  then show ?thesis using assms by simp
next
  case (TranslationArrives r)
  then show ?thesis using assms
    by (simp add: handleTranslationAndTTS_capture handleTranslationAndTTS_recognizer)
next
  case LiveOpen
  then show ?thesis using assms by (simp add: onopen_def Let_def)
next
  case (LiveMessage m)
  then show ?thesis using assms
    by (simp add: handleLiveMessage_capture handleLiveMessage_recognizer)
next
  case Stop
  then show ?thesis using assms by (simp add: stopLiveSession_def Let_def)
qed

lemma run_after_stop:
  assumes "\<not> isRecording st" "processor st = None"
  shows "\<not> isRecording (run tr lang evs st) \<and>
         processor (run tr lang evs st) = None \<and>
         recognitionStarts (run tr lang evs st) = recognitionStarts st \<and>
         length (timers (run tr lang evs st)) \<le> length (timers st) \<and>
         realtimeInputs (sent (run tr lang evs st)) = realtimeInputs (sent st)"
  using assms
proof (induction evs arbitrary: st)
  case Nil
  then show ?case by simp
next
  case (Cons ev evs)
  from dispatch_after_stop [OF Cons.prems, of tr lang ev]
  have d: "\<not> isRecording (dispatch tr lang ev st)" "processor (dispatch tr lang ev st) = None"
    "recognitionStarts (dispatch tr lang ev st) = recognitionStarts st"
    "length (timers (dispatch tr lang ev st)) \<le> length (timers st)"
    "realtimeInputs (sent (dispatch tr lang ev st)) = realtimeInputs (sent st)"
    by simp_all
  from Cons.IH [OF d(1,2)] d(3-5) show ?case by simp
qed

text \<open>
  Claim C9, as the code has it. The guards are flags of the object, not of a session,
  and \<^verbatim>\<open>recognition.onresult\<close> has none. In the example session:
  a final result delivered after stop is appended to the transcript and sent for
  translation, and the translation that comes back is handed to the live session;
  a stop that falls into the wait for the microphone does not end the start, which goes
  on to connect, so that the open handler sets the audio handler and a frame is sent
  while \<^verbatim>\<open>isRecording\<close> is off;
  and after the next start, the stopped session's recognizer end, or a timer it left
  pending, starts the recognizer once more.
\<close>

theorem late_result_counterexample:
  "finalized (run True ''Spanish'' [LiveOpen, Stop]
      (startLiveSession exampleEnv (initialApp :: real app))) = [] \<and>
   finalized (run True ''Spanish''
      [LiveOpen, Stop, RecognitionResult \<lparr>resultIndex = 0, results = [(True, ''hello'')]\<rparr>]
      (startLiveSession exampleEnv (initialApp :: real app))) = [''hello ''] \<and>
   translationRequests (run True ''Spanish''
      [LiveOpen, Stop, RecognitionResult \<lparr>resultIndex = 0, results = [(True, ''hello'')]\<rparr>]
      (startLiveSession exampleEnv (initialApp :: real app))) = [(''hello'', ''Spanish'')] \<and>
   sent (run True ''Spanish''
      [LiveOpen, Stop, RecognitionResult \<lparr>resultIndex = 0, results = [(True, ''hello'')]\<rparr>,
       TranslationArrives (Response (Some ''hola''))]
      (startLiveSession exampleEnv (initialApp :: real app))) = [Turn ''hola''] \<and>
   \<not> isRecording
      (onopen False
        (resumeLiveSession (exampleEnv\<lparr>selectedOutputLanguage := ''none''\<rparr>)
          (stopLiveSession (resetSession (initialApp :: real app))))) \<and>
   processor
      (onopen False
        (resumeLiveSession (exampleEnv\<lparr>selectedOutputLanguage := ''none''\<rparr>)
          (stopLiveSession (resetSession (initialApp :: real app))))) = Some True \<and>
   sent (dispatch False [] (AudioProcess [1/2])
      (onopen False
        (resumeLiveSession (exampleEnv\<lparr>selectedOutputLanguage := ''none''\<rparr>)
          (stopLiveSession (resetSession (initialApp :: real app)))))) =
     [RealtimeInput [255, 63]] \<and>
   recognitionStarts
      (startLiveSession exampleEnv
        (stopLiveSession (onopen True (startLiveSession exampleEnv (initialApp :: real app)))))
     = 2 \<and>
   recognitionStarts
      (run True ''Spanish'' [RecognitionEnd, TimerFires False]
        (startLiveSession exampleEnv
          (stopLiveSession (onopen True (startLiveSession exampleEnv (initialApp :: real app))))))
     = 3 \<and>
   recognitionStarts
      (fire False
        (startLiveSession exampleEnv
          (run True ''Spanish'' [LiveOpen, RecognitionEnd, Stop]
            (startLiveSession exampleEnv (initialApp :: real app)))))
     = 3"
  by code_simp

text \<open>
  Claim C9, amended. After \<^verbatim>\<open>stopLiveSession\<close>, and as long as no start goes on or
  begins, whatever events of the session follow: the session stays stopped, the
  recognizer is not started again, no timer is added and no audio frame is handed to
  the live session. The end handler and the timer check \<^verbatim>\<open>isRecording\<close>; audio frames
  find no handler, because stop has dropped the processor. If only recognizer ends,
  timers and audio frames follow, nothing at all is sent and the transcript and the
  translation requests are unchanged.
\<close>

theorem late_callbacks_after_stop:
  "\<not> isRecording (run tr lang evs (stopLiveSession st)) \<and>
   processor (run tr lang evs (stopLiveSession st)) = None \<and>
   recognitionStarts (run tr lang evs (stopLiveSession st)) = recognitionStarts st \<and>
   length (timers (run tr lang evs (stopLiveSession st))) \<le> length (timers st) \<and>
   realtimeInputs (sent (run tr lang evs (stopLiveSession st))) = realtimeInputs (sent st) \<and>
   (list_all lateCallback evs \<longrightarrow>
      sent (run tr lang evs (stopLiveSession st)) = sent st \<and>
      rawTranscription (run tr lang evs (stopLiveSession st)) = rawTranscription st \<and>
      translationRequests (run tr lang evs (stopLiveSession st)) = translationRequests st)"
proof -
  have s: "\<not> isRecording (stopLiveSession st)" "processor (stopLiveSession st) = None"
    using stopLiveSession_fields [of st] by simp_all
  have all: "\<not> isRecording (run tr lang evs (stopLiveSession st)) \<and>
      processor (run tr lang evs (stopLiveSession st)) = None \<and>
      recognitionStarts (run tr lang evs (stopLiveSession st)) = recognitionStarts st \<and>
      length (timers (run tr lang evs (stopLiveSession st))) \<le> length (timers st) \<and>
      realtimeInputs (sent (run tr lang evs (stopLiveSession st))) = realtimeInputs (sent st)"
    using run_after_stop [OF s, of tr lang evs] stopLiveSession_fields [of st] by simp
  have late: "list_all lateCallback evs \<longrightarrow>
      sent (run tr lang evs (stopLiveSession st)) = sent st \<and>
      rawTranscription (run tr lang evs (stopLiveSession st)) = rawTranscription st \<and>
      translationRequests (run tr lang evs (stopLiveSession st)) = translationRequests st"
  proof
    assume "list_all lateCallback evs"
    from run_stopped [OF s this, of tr lang] stopLiveSession_fields [of st]
    show "sent (run tr lang evs (stopLiveSession st)) = sent st \<and>
      rawTranscription (run tr lang evs (stopLiveSession st)) = rawTranscription st \<and>
      translationRequests (run tr lang evs (stopLiveSession st)) = translationRequests st"
      by simp
  qed
  from all late show ?thesis by simp
qed

text \<open>A transcription session that was streaming audio, stopped.\<close>

theorem late_callbacks_after_stop_witness:
  "list_all lateCallback [RecognitionEnd, TimerFires False, AudioProcess [1/2], RecognitionEnd] \<and>
   recognitionStarts (run False ''Spanish''
        [RecognitionEnd, TimerFires False, AudioProcess [1/2], RecognitionEnd]
        (stopLiveSession (onopen False (startLiveSession (exampleEnv\<lparr>selectedOutputLanguage := ''none''\<rparr>) (initialApp :: real app))))) = 1 \<and>
   sent (run False ''Spanish''
        [RecognitionEnd, TimerFires False, AudioProcess [1/2], RecognitionEnd]
        (stopLiveSession (onopen False (startLiveSession (exampleEnv\<lparr>selectedOutputLanguage := ''none''\<rparr>) (initialApp :: real app))))) = []"
  using late_callbacks_after_stop
    [where evs = "[RecognitionEnd, TimerFires False, AudioProcess [1/2], RecognitionEnd]"
       and tr = False and lang = "''Spanish''"
       and st = "onopen False (startLiveSession (exampleEnv\<lparr>selectedOutputLanguage := ''none''\<rparr>) (initialApp :: real app))"]
  by code_simp

section \<open>Results: system audio without an audio track\<close>

text \<open>
  The three outcomes of a failed system capture in \<^verbatim>\<open>GeminiLiveApp\<close>: a rejection named
  \<open>NotAllowedError\<close> or \<open>PermissionDeniedError\<close> reads as a cancelled selection, the
  missing audio track has its own message, and anything else shows its message or a
  general text.
\<close>

lemma systemAudioFailed_status:
  "recordingStatus (systemAudioFailed (JsError ''NotAllowedError'' m) st) = ''Selection cancelled.'' \<and>
   recordingStatus (systemAudioFailed (JsError ''PermissionDeniedError'' m) st) =
     ''Selection cancelled.'' \<and>
   recordingStatus (systemAudioFailed noAudioTrack st) = message noAudioTrack \<and>
   recordingStatus (systemAudioFailed (JsError ''AbortError'' []) st) = ''System audio error.'' \<and>
   message noAudioTrack \<noteq> ''Selection cancelled.'' \<and>
   message noAudioTrack \<noteq> ''System audio error.''"
  by (simp add: systemAudioFailed_def noAudioTrack_def)

text \<open>
  Claim C6. The display capture grants tracks none of which is an audio track.
  \<^verbatim>\<open>VoiceNotesApp.startLiveSession\<close> does not look: it keeps the stream with every track
  running, goes on to create both audio contexts, and the status is the general start
  error or still the initializing text. \<^verbatim>\<open>GeminiLiveApp.startLiveSession\<close> does what the
  claim says: it stops every track, drops the stream, reports the no-audio-track
  message, and returns having created nothing; it only sets the timer that resets the
  status.
\<close>

theorem no_audio_track_divergence:
  assumes gd: "getDisplayMedia e = Fulfilled granted"
    and na: "filter (\<lambda>t. kind t = Audio) granted = []"
  shows "(selectedSourceType st = System \<longrightarrow>
            tracks (startLiveSession e st) = granted \<and>
            stream (startLiveSession e st) \<and>
            audioContext (startLiveSession e st) \<and>
            outputAudioContext (startLiveSession e st) \<and>
            recordingStatus (startLiveSession e st) =
              (if createMediaStreamSourceThrows e then ''Error starting session''
               else ''Initializing Live Session...'')) \<and>
         (apiKey e \<and> unifiedSourceSelect e = ''system'' \<longrightarrow>
            recordingStatus (GeminiLiveApp_startLiveSession e st) = message noAudioTrack \<and>
            recordingStatus (GeminiLiveApp_startLiveSession e st) \<noteq> ''Selection cancelled.'' \<and>
            tracks (GeminiLiveApp_startLiveSession e st) = map (\<lambda>t. t\<lparr>stopped := True\<rparr>) granted \<and>
            \<not> stream (GeminiLiveApp_startLiveSession e st) \<and>
            \<not> isRecording (GeminiLiveApp_startLiveSession e st) \<and>
            audioContext (GeminiLiveApp_startLiveSession e st) = audioContext st \<and>
            outputAudioContext (GeminiLiveApp_startLiveSession e st) = outputAudioContext st \<and>
            sourceNode (GeminiLiveApp_startLiveSession e st) = sourceNode st \<and>
            processor (GeminiLiveApp_startLiveSession e st) = processor st \<and>
            sessionPromise (GeminiLiveApp_startLiveSession e st) = sessionPromise st \<and>
            recognitionStarts (GeminiLiveApp_startLiveSession e st) = recognitionStarts st \<and>
            sent (GeminiLiveApp_startLiveSession e st) = sent st \<and>
            timers (GeminiLiveApp_startLiveSession e st) = timers st @ [(3000, ResetStatus)])"
proof (intro conjI impI)
  assume sys: "selectedSourceType st = System"
  have r: "selectedSourceType (resetSession st) = System"
    using sys by (simp add: resetSession_def ensureInterimSpan_def)
  have eq: "startLiveSession e st =
      connectLive (systemInstruction System
          (isTranslationMode (selectedInputLanguage e) (selectedOutputLanguage e))
          (selectedOutputLanguageText e)) e
        ((resetSession st)\<lparr>stream := True, tracks := granted\<rparr>)"
    using r gd by (simp add: startLiveSession_def Let_def)
  show "tracks (startLiveSession e st) = granted" "stream (startLiveSession e st)"
    "audioContext (startLiveSession e st)" "outputAudioContext (startLiveSession e st)"
    by (simp_all add: eq connectLive_def startFailed_def Let_def)
  show "recordingStatus (startLiveSession e st) =
              (if createMediaStreamSourceThrows e then ''Error starting session''
               else ''Initializing Live Session...'')"
    by (simp add: eq connectLive_def startFailed_def Let_def resetSession_def
        ensureInterimSpan_def)
next
  assume gl: "apiKey e \<and> unifiedSourceSelect e = ''system''"
  define st1 where "st1 = GeminiLiveApp_resetSession e st"
  have sys1: "selectedSourceType st1 = System"
    using gl
    by (simp add: st1_def GeminiLiveApp_resetSession_def GeminiLiveApp_ensureInterimContainer_def)
  have eq: "GeminiLiveApp_startLiveSession e st =
      systemAudioFailed noAudioTrack
        (st1\<lparr>tracks := map (\<lambda>t. t\<lparr>stopped := True\<rparr>) granted, stream := False\<rparr>)"
    using gl gd na sys1
    by (simp add: GeminiLiveApp_startLiveSession_def Let_def st1_def [symmetric])
  have frame: "audioContext st1 = audioContext st" "outputAudioContext st1 = outputAudioContext st"
    "sourceNode st1 = sourceNode st" "processor st1 = processor st"
    "sessionPromise st1 = sessionPromise st" "recognitionStarts st1 = recognitionStarts st"
    "sent st1 = sent st" "timers st1 = timers st"
    by (simp_all add: st1_def GeminiLiveApp_resetSession_def
        GeminiLiveApp_ensureInterimContainer_def)
  show "recordingStatus (GeminiLiveApp_startLiveSession e st) = message noAudioTrack"
    by (simp add: eq systemAudioFailed_def noAudioTrack_def)
  then show "recordingStatus (GeminiLiveApp_startLiveSession e st) \<noteq> ''Selection cancelled.''"
    by (simp add: noAudioTrack_def)
  show "tracks (GeminiLiveApp_startLiveSession e st) = map (\<lambda>t. t\<lparr>stopped := True\<rparr>) granted"
    "\<not> stream (GeminiLiveApp_startLiveSession e st)"
    "\<not> isRecording (GeminiLiveApp_startLiveSession e st)"
    "audioContext (GeminiLiveApp_startLiveSession e st) = audioContext st"
    "outputAudioContext (GeminiLiveApp_startLiveSession e st) = outputAudioContext st"
    "sourceNode (GeminiLiveApp_startLiveSession e st) = sourceNode st"
    "processor (GeminiLiveApp_startLiveSession e st) = processor st"
    "sessionPromise (GeminiLiveApp_startLiveSession e st) = sessionPromise st"
    "recognitionStarts (GeminiLiveApp_startLiveSession e st) = recognitionStarts st"
    "sent (GeminiLiveApp_startLiveSession e st) = sent st"
    "timers (GeminiLiveApp_startLiveSession e st) = timers st @ [(3000, ResetStatus)]"
    by (simp_all add: eq systemAudioFailed_def frame)
qed

text \<open>The example environment, whose display capture grants one video track.\<close>

theorem no_audio_track_divergence_witness:
  "getDisplayMedia (exampleEnv\<lparr>unifiedSourceSelect := ''system''\<rparr>) =
     Fulfilled [\<lparr>kind = Video, stopped = False\<rparr>] \<and>
   filter (\<lambda>t. kind t = Audio) [\<lparr>kind = Video, stopped = False\<rparr>] = [] \<and>
   tracks (startLiveSession (exampleEnv\<lparr>unifiedSourceSelect := ''system''\<rparr>)
      ((initialApp :: real app)\<lparr>selectedSourceType := System\<rparr>)) =
     [\<lparr>kind = Video, stopped = False\<rparr>] \<and>
   recordingStatus (startLiveSession (exampleEnv\<lparr>unifiedSourceSelect := ''system''\<rparr>)
      ((initialApp :: real app)\<lparr>selectedSourceType := System\<rparr>)) =
     ''Initializing Live Session...'' \<and>
   tracks (GeminiLiveApp_startLiveSession (exampleEnv\<lparr>unifiedSourceSelect := ''system''\<rparr>)
      ((initialApp :: real app)\<lparr>selectedSourceType := System\<rparr>)) =
     [\<lparr>kind = Video, stopped = True\<rparr>] \<and>
   recordingStatus
     (GeminiLiveApp_startLiveSession (exampleEnv\<lparr>unifiedSourceSelect := ''system''\<rparr>)
      ((initialApp :: real app)\<lparr>selectedSourceType := System\<rparr>)) = message noAudioTrack"
  using no_audio_track_divergence
    [of "exampleEnv\<lparr>unifiedSourceSelect := ''system''\<rparr>"
        "[\<lparr>kind = Video, stopped = False\<rparr>]"
        "(initialApp :: real app)\<lparr>selectedSourceType := System\<rparr>"]
  by code_simp

section \<open>Results: mode resolution\<close>

lemma reader_instruction:
  "sublist ''read it aloud'' (systemInstruction Mic True lang) \<and>
   sublist ''Do not translate'' (systemInstruction Mic True lang) \<and>
   sublist ''Do not comment'' (systemInstruction Mic True lang) \<and>
   sublist ''Just read the text provided.'' (systemInstruction Mic True lang)"
proof (intro conjI)
  have "systemInstruction Mic True lang =
      (''You are a text-to-speech engine. '' @ lineBreak 10 @
        ''You will receive text in ['' @ lang @ '']. '' @ lineBreak 10 @
        ''Your ONLY task is to '') @ ''read it aloud'' @
      ('' instantly with a warm, highly motivated, faithfully convicted tone in [''
          @ lang @ ''].'' @ lineBreak 10 @
        ''Do not translate (it is already translated). '' @ lineBreak 10 @
        ''Do not comment. '' @ lineBreak 10 @
        ''Just read the text provided.'')"
    by (simp add: systemInstruction_def)
  then show "sublist ''read it aloud'' (systemInstruction Mic True lang)"
    by (simp only: sublist_appendI)
  have "systemInstruction Mic True lang =
      (''You are a text-to-speech engine. '' @ lineBreak 10 @
        ''You will receive text in ['' @ lang @ '']. '' @ lineBreak 10 @
        ''Your ONLY task is to read it aloud instantly with a warm, highly motivated, faithfully convicted tone in [''
          @ lang @ ''].'' @ lineBreak 10) @ ''Do not translate'' @
      ('' (it is already translated). '' @ lineBreak 10 @
        ''Do not comment. '' @ lineBreak 10 @
        ''Just read the text provided.'')"
    by (simp add: systemInstruction_def)
  then show "sublist ''Do not translate'' (systemInstruction Mic True lang)"
    by (simp only: sublist_appendI)
  have "systemInstruction Mic True lang =
      (''You are a text-to-speech engine. '' @ lineBreak 10 @
        ''You will receive text in ['' @ lang @ '']. '' @ lineBreak 10 @
        ''Your ONLY task is to read it aloud instantly with a warm, highly motivated, faithfully convicted tone in [''
          @ lang @ ''].'' @ lineBreak 10 @
        ''Do not translate (it is already translated). '' @ lineBreak 10) @
        ''Do not comment'' @ (''. '' @ lineBreak 10 @
        ''Just read the text provided.'')"
    by (simp add: systemInstruction_def)
  then show "sublist ''Do not comment'' (systemInstruction Mic True lang)"
    by (simp only: sublist_appendI)
  have "systemInstruction Mic True lang =
      (''You are a text-to-speech engine. '' @ lineBreak 10 @
        ''You will receive text in ['' @ lang @ '']. '' @ lineBreak 10 @
        ''Your ONLY task is to read it aloud instantly with a warm, highly motivated, faithfully convicted tone in [''
          @ lang @ ''].'' @ lineBreak 10 @
        ''Do not translate (it is already translated). '' @ lineBreak 10 @
        ''Do not comment. '' @ lineBreak 10) @
        ''Just read the text provided.'' @ []"
    by (simp add: systemInstruction_def)
  then show "sublist ''Just read the text provided.'' (systemInstruction Mic True lang)"
    by (simp only: sublist_appendI)
qed

lemma resetSession_fields:
  "selectedSourceType (resetSession st) = selectedSourceType st \<and>
   \<not> isWebSpeechActive (resetSession st)"
  by (simp add: resetSession_def ensureInterimSpan_def)

text \<open>
  Claim C2, as the code has it. In \<^verbatim>\<open>VoiceNotesApp\<close> the recognizer's failure to start
  changes nothing: in the example session with a recognizer whose start throws, the
  active flag is off and the connection opens without the audio handler being set.
\<close>

theorem no_fallback_counterexample:
  "\<not> isWebSpeechActive
      (startLiveSession (exampleEnv\<lparr>recognitionStartThrows := True\<rparr>) (initialApp :: real app)) \<and>
   processor (onopen True
      (startLiveSession (exampleEnv\<lparr>recognitionStartThrows := True\<rparr>) (initialApp :: real app)))
     = Some False"
  by code_simp

text \<open>
  Claim C2, amended. For a microphone session with translation active that gets its
  stream, both classes connect with the reader prompt, which tells the model to read the
  text aloud, not to translate and not to comment. In \<^verbatim>\<open>GeminiLiveApp\<close> the routing is
  decided when the connection opens, from the recognizer's active flag: audio is
  streamed exactly when local recognition did not start. In \<^verbatim>\<open>VoiceNotesApp\<close> audio is
  not streamed in this mode, whether or not recognition started.
\<close>

theorem mic_translate_plan:
  assumes tm: "isTranslationMode (selectedInputLanguage e) (selectedOutputLanguage e)"
    and um: "getUserMedia e = Fulfilled granted"
    and ok: "\<not> createMediaStreamSourceThrows e"
  shows "(apiKey e \<and> unifiedSourceSelect e \<noteq> ''system'' \<longrightarrow>
            sessionPromise (GeminiLiveApp_startLiveSession e st) =
              Some (systemInstruction Mic True (selectedOutputLanguageText e)) \<and>
            isWebSpeechActive (GeminiLiveApp_startLiveSession e st) =
              (speechRecognitionInWindow e \<and> \<not> recognitionStartThrows e) \<and>
            processor (GeminiLiveApp_onopen True (GeminiLiveApp_startLiveSession e st)) =
              Some (\<not> (speechRecognitionInWindow e \<and> \<not> recognitionStartThrows e))) \<and>
         (selectedSourceType st = Mic \<longrightarrow>
            sessionPromise (startLiveSession e st) =
              Some (systemInstruction Mic True (selectedOutputLanguageText e)) \<and>
            isWebSpeechActive (startLiveSession e st) =
              (speechRecognitionInWindow e \<and> \<not> recognitionStartThrows e) \<and>
            processor (onopen True (startLiveSession e st)) = Some False) \<and>
         sublist ''read it aloud'' (systemInstruction Mic True (selectedOutputLanguageText e)) \<and>
         sublist ''Do not translate'' (systemInstruction Mic True (selectedOutputLanguageText e)) \<and>
         sublist ''Do not comment'' (systemInstruction Mic True (selectedOutputLanguageText e)) \<and>
         GeminiLiveApp_shouldStreamAudioToGemini Mic True active = (\<not> active) \<and>
         shouldStreamAudioToGemini Mic True = False"
proof (intro conjI impI)
  assume gl: "apiKey e \<and> unifiedSourceSelect e \<noteq> ''system''"
  define st1 where "st1 = GeminiLiveApp_resetSession e st"
  define st2 where
    "st2 = GeminiLiveApp_setupRecognition e (st1\<lparr>stream := True, tracks := granted\<rparr>)"
  have st1: "selectedSourceType st1 = Mic" "\<not> isWebSpeechActive st1"
    using gl
    by (simp_all add: st1_def GeminiLiveApp_resetSession_def
        GeminiLiveApp_ensureInterimContainer_def)
  have eq: "GeminiLiveApp_startLiveSession e st =
      connectLive (systemInstruction Mic True (selectedOutputLanguageText e)) e st2"
    using gl tm um st1(1)
    by (simp add: GeminiLiveApp_startLiveSession_def Let_def st1_def [symmetric]
        st2_def [symmetric])
  have st2: "selectedSourceType st2 = Mic"
    "isWebSpeechActive st2 = (speechRecognitionInWindow e \<and> \<not> recognitionStartThrows e)"
    using st1 by (auto simp: st2_def GeminiLiveApp_setupRecognition_def Let_def)
  show "sessionPromise (GeminiLiveApp_startLiveSession e st) =
              Some (systemInstruction Mic True (selectedOutputLanguageText e))"
    using ok by (simp add: eq connectLive_def Let_def)
  show "isWebSpeechActive (GeminiLiveApp_startLiveSession e st) =
              (speechRecognitionInWindow e \<and> \<not> recognitionStartThrows e)"
    using ok st2 by (simp add: eq connectLive_def Let_def)
  show "processor (GeminiLiveApp_onopen True (GeminiLiveApp_startLiveSession e st)) =
              Some (\<not> (speechRecognitionInWindow e \<and> \<not> recognitionStartThrows e))"
    using ok st2
    by (auto simp: eq connectLive_def Let_def GeminiLiveApp_onopen_def
        GeminiLiveApp_shouldStreamAudioToGemini_def isMicFallback_def)
next
  assume mic: "selectedSourceType st = Mic"
  define st2 where
    "st2 = setupRecognition e ((resetSession st)\<lparr>stream := True, tracks := granted\<rparr>)"
  have eq: "startLiveSession e st =
      connectLive (systemInstruction Mic True (selectedOutputLanguageText e)) e st2"
    using mic tm um resetSession_fields [of st]
    by (simp add: startLiveSession_def Let_def st2_def)
  have st2: "selectedSourceType st2 = Mic"
    "isWebSpeechActive st2 = (speechRecognitionInWindow e \<and> \<not> recognitionStartThrows e)"
    using resetSession_fields [of st] mic
    by (auto simp: st2_def setupRecognition_def Let_def)
  show "sessionPromise (startLiveSession e st) =
              Some (systemInstruction Mic True (selectedOutputLanguageText e))"
    using ok by (simp add: eq connectLive_def Let_def)
  show "isWebSpeechActive (startLiveSession e st) =
              (speechRecognitionInWindow e \<and> \<not> recognitionStartThrows e)"
    using ok st2 by (simp add: eq connectLive_def Let_def)
  show "processor (onopen True (startLiveSession e st)) = Some False"
    using ok st2
    by (simp add: eq connectLive_def Let_def onopen_def shouldStreamAudioToGemini_def)
next
  show "sublist ''read it aloud'' (systemInstruction Mic True (selectedOutputLanguageText e))"
    "sublist ''Do not translate'' (systemInstruction Mic True (selectedOutputLanguageText e))"
    "sublist ''Do not comment'' (systemInstruction Mic True (selectedOutputLanguageText e))"
    using reader_instruction [of "selectedOutputLanguageText e"] by simp_all
  show "GeminiLiveApp_shouldStreamAudioToGemini Mic True active = (\<not> active)"
    by (simp add: GeminiLiveApp_shouldStreamAudioToGemini_def isMicFallback_def)
  show "shouldStreamAudioToGemini Mic True = False"
    by (simp add: shouldStreamAudioToGemini_def)
qed

text \<open>The example session, once with a recognizer whose start throws and once without.\<close>

theorem mic_translate_plan_witness:
  "isTranslationMode (selectedInputLanguage (exampleEnv\<lparr>recognitionStartThrows := True\<rparr>))
     (selectedOutputLanguage (exampleEnv\<lparr>recognitionStartThrows := True\<rparr>)) \<and>
   processor (GeminiLiveApp_onopen True
      (GeminiLiveApp_startLiveSession (exampleEnv\<lparr>recognitionStartThrows := True\<rparr>)
         (initialApp :: real app))) = Some True \<and>
   processor (GeminiLiveApp_onopen True
      (GeminiLiveApp_startLiveSession exampleEnv (initialApp :: real app))) = Some False"
  using mic_translate_plan
    [of "exampleEnv\<lparr>recognitionStartThrows := True\<rparr>" "[\<lparr>kind = Audio, stopped = False\<rparr>]"
        "initialApp :: real app"]
  by code_simp

end
